theory Spec2Isabelle
  imports Main
begin

section \<open>Python values used by scripts/generate\_assets.py\<close>

text \<open>
  The script is a straight-line Python program over the Pillow imaging library and
  \<open>pathlib\<close>. Its own code (paths, geometry arithmetic, order of calls, the font
  fallback) is embedded below function by function. Pillow and the operating system are
  not part of the repository: what they compute is taken as a parameter (record \<open>env\<close>),
  and the effects the script has on them are made explicit (record \<open>world\<close>).

  Python \<open>int\<close> is \<open>int\<close>; \<open>//\<close> on integers is \<open>div\<close> (both round towards minus
  infinity), \<open>%\<close> is \<open>mod\<close>. A Python \<open>str\<close> is a \<open>string\<close>; the three code points
  outside ASCII that occur in the literals are written as their UTF-8 bytes.
  An exception is a value of \<open>py_error\<close>; a call that may raise returns
  \<open>py_error + 'a\<close> with \<open>Inl\<close> for the exception. Only subclasses of Python's
  \<open>Exception\<close> are modelled, which is what \<open>except Exception\<close> catches.
\<close>

datatype py_error =
    OSError
  | FileExistsError
  | FileNotFoundError
  | NotADirectoryError
  | IsADirectoryError
  | ValueError
  | UnicodeEncodeError
  | MemoryError

definition bindE :: "'e + 'a \<Rightarrow> ('a \<Rightarrow> 'e + 'b) \<Rightarrow> 'e + 'b" where
  "bindE m f = (case m of Inl e \<Rightarrow> Inl e | Inr x \<Rightarrow> f x)"

text \<open>
  Python floats are IEEE doubles. The script uses them only for coordinates handed to
  Pillow (\<open>cx - tw/2\<close>, \<open>height*0.28 - th/2\<close>, \<open>int(height*0.70 - ph/2 - 10)\<close>), so a
  float is kept as the expression that computes it, with the literals as written in the
  source; nothing below depends on its rounded value.
\<close>

datatype pyfloat =
    FLit string
  | FInt int
  | FAdd pyfloat pyfloat
  | FSub pyfloat pyfloat
  | FMul pyfloat pyfloat
  | FDiv pyfloat pyfloat

datatype pynum =
    PInt int
  | PFloat pyfloat
  | PTrunc pyfloat

type_synonym color = "int list"
type_synonym box = "pynum \<times> pynum \<times> pynum \<times> pynum"

section \<open>Images as Pillow sees them\<close>

text \<open>
  An image is its mode, its pixel dimensions, the colour it was created with and the
  drawing calls made on it so far, in order, each with the arguments the script passed.
  Rasterisation is Pillow's business; it is a function of exactly this data.
\<close>

datatype 'font draw_op =
    Rounded_rectangle box int "color option" "color option" int
  | Ellipse box color
  | Rectangle box color
  | Text "pynum \<times> pynum" string 'font color

record 'font image =
  im_mode :: string
  im_width :: int
  im_height :: int
  im_color :: color
  im_ops :: "'font draw_op list"

section \<open>Paths and the file system\<close>

text \<open>
  A path is absolute and is the list of its components below \<open>/\<close>. \<open>path_div\<close> is
  the \<open>/\<close> operator of \<open>pathlib.PurePosixPath\<close> with a \<open>str\<close> on the right: the
  operand is split at slashes, empty and \<open>.\<close> components are dropped, and an operand that
  starts with a slash replaces the left path.
\<close>

type_synonym path = "string list"

fun split_slash :: "string \<Rightarrow> string \<Rightarrow> string list" where
  "split_slash acc [] = [acc]"
| "split_slash acc (c # cs) =
     (if c = CHR ''/'' then acc # split_slash [] cs else split_slash (acc @ [c]) cs)"

definition parts :: "string \<Rightarrow> path" where
  "parts s = filter (\<lambda>c. c \<noteq> [] \<and> c \<noteq> ''.'') (split_slash [] s)"

definition path_div :: "path \<Rightarrow> string \<Rightarrow> path" where
  "path_div p s = (if s \<noteq> [] \<and> hd s = CHR ''/'' then parts s else p @ parts s)"

text \<open>\<open>str(i)\<close> for an integer, as the f-string \<open>f"screenshot-{idx}.png"\<close> formats it.\<close>

fun digits :: "nat \<Rightarrow> string" where
  "digits n =
     (if n < 10 then [''0123456789'' ! n]
      else digits (n div 10) @ [''0123456789'' ! (n mod 10)])"

declare digits.simps [simp del]

definition py_str :: "int \<Rightarrow> string" where
  "py_str i = (if i < 0 then CHR ''-'' # digits (nat (- i)) else digits (nat i))"

datatype 'font node = Dir | File "'font image"

text \<open>
  The world the script acts on: the file system below \<open>/\<close> (the root itself is always a
  directory), the paths handed to \<open>img.save\<close> so far, in order, and the lines printed.
\<close>

record 'font world =
  nodes :: "path \<rightharpoonup> 'font node"
  saved :: "path list"
  stdout :: "string list"

definition is_dir :: "'font world \<Rightarrow> path \<Rightarrow> bool" where
  "is_dir w p = (p = [] \<or> nodes w p = Some Dir)"

section \<open>The environment: Pillow and the installation\<close>

text \<open>
  \<^item> \<open>ROOT\<close> is the module constant \<open>Path(__file__).resolve().parents[1]\<close>.
  \<^item> \<open>truetype path size\<close> is \<open>ImageFont.truetype\<close>: a font handle, or the exception
    it raises (no such file, no FreeType support, a size it refuses).
  \<^item> \<open>load_default size\<close> is \<open>ImageFont.load_default\<close>, whose optional argument
    is the point size; it returns the font built into Pillow and does not raise.
  \<^item> \<open>textbbox font text\<close> is \<open>draw.textbbox((0,0), text, font=font)\<close>: the box
    \<open>(left, top, right, bottom)\<close>, or the exception it raises (Pillow refuses to
    measure with some kinds of font).
  \<^item> \<open>draw_error img op\<close> is the exception, if any, with which Pillow refuses a drawing
    call (coordinates out of order, text the font cannot encode).
  \<^item> \<open>save_error img path\<close> is the exception, if any, with which \<open>img.save\<close> fails
    to pick or run an encoder for the path's extension.
\<close>

record 'font env =
  ROOT :: path
  truetype :: "string \<Rightarrow> int \<Rightarrow> py_error + 'font"
  load_default :: "int option \<Rightarrow> 'font"
  textbbox :: "'font \<Rightarrow> string \<Rightarrow> py_error + int \<times> int \<times> int \<times> int"
  draw_error :: "'font image \<Rightarrow> 'font draw_op \<Rightarrow> py_error option"
  save_error :: "'font image \<Rightarrow> path \<Rightarrow> py_error option"

text \<open>\<open>Image.new(mode, size, color)\<close>: Pillow rejects a negative width or height.\<close>

definition Image_new :: "string \<Rightarrow> int \<times> int \<Rightarrow> color \<Rightarrow> py_error + 'font image" where
  "Image_new m sz c =
     (if fst sz < 0 \<or> snd sz < 0 then Inl ValueError
      else Inr \<lparr>im_mode = m, im_width = fst sz, im_height = snd sz, im_color = c, im_ops = []\<rparr>)"

text \<open>A method of \<open>ImageDraw.Draw(img)\<close>: the call is refused, or it is made on the image.\<close>

definition draw :: "'font env \<Rightarrow> 'font image \<Rightarrow> 'font draw_op \<Rightarrow> py_error + 'font image" where
  "draw e img op =
     (case draw_error e img op of
        Some x \<Rightarrow> Inl x
      | None \<Rightarrow> Inr (img\<lparr>im_ops := im_ops img @ [op]\<rparr>))"

text \<open>
  \<open>p.mkdir(parents=True, exist_ok=True)\<close>: every missing directory on the way to \<open>p\<close>
  is created; a directory that exists is accepted; a file in the way is an error.
  The first argument is the part of the path already known to be a directory.
\<close>

fun mkdir_parents :: "path \<Rightarrow> path \<Rightarrow> 'font world \<Rightarrow> py_error + 'font world" where
  "mkdir_parents p [] w = Inr w"
| "mkdir_parents p (c # cs) w =
     (case nodes w (p @ [c]) of
        Some Dir \<Rightarrow> mkdir_parents (p @ [c]) cs w
      | Some (File _) \<Rightarrow> Inl (if cs = [] then FileExistsError else NotADirectoryError)
      | None \<Rightarrow> mkdir_parents (p @ [c]) cs (w\<lparr>nodes := (nodes w)(p @ [c] \<mapsto> Dir)\<rparr>))"

definition mkdir :: "path \<Rightarrow> 'font world \<Rightarrow> py_error + 'font world" where
  "mkdir p w = mkdir_parents [] p w"

text \<open>
  \<open>img.save(out)\<close>: Pillow picks the encoder from the extension, opens the file for
  writing (its directory must exist, and the path must not be a directory) and writes
  the image, replacing what was there.
\<close>

definition save :: "'font env \<Rightarrow> 'font image \<Rightarrow> path \<Rightarrow> 'font world \<Rightarrow> py_error + 'font world" where
  "save e img out w =
     (case save_error e img out of
        Some x \<Rightarrow> Inl x
      | None \<Rightarrow>
          if out = [] \<or> nodes w out = Some Dir then Inl IsADirectoryError
          else if \<not> is_dir w (butlast out) then
            (case nodes w (butlast out) of
               Some (File _) \<Rightarrow> Inl NotADirectoryError
             | _ \<Rightarrow> Inl FileNotFoundError)
          else Inr (w\<lparr>nodes := (nodes w)(out \<mapsto> File img), saved := saved w @ [out]\<rparr>))"

section \<open>The script\<close>

definition ASSETS_DIR :: "'font env \<Rightarrow> path" where
  "ASSETS_DIR e = path_div (path_div (path_div (ROOT e) ''myayai-extension'') ''assets'') ''icons''"

definition STORE_DIR :: "'font env \<Rightarrow> path" where
  "STORE_DIR e = path_div (ROOT e) ''store-assets''"

definition SCREENSHOTS_DIR :: "'font env \<Rightarrow> path" where
  "SCREENSHOTS_DIR e = path_div (STORE_DIR e) ''screenshots''"

definition ensure_dirs :: "'font env \<Rightarrow> 'font world \<Rightarrow> py_error + 'font world" where
  "ensure_dirs e w =
     bindE (mkdir (ASSETS_DIR e) w) (\<lambda>w.
     mkdir (SCREENSHOTS_DIR e) w)"

definition get_font :: "'font env \<Rightarrow> int \<Rightarrow> py_error + 'font" where
  "get_font e sz =
     (case truetype e ''/System/Library/Fonts/SFNS.ttf'' sz of
        Inr f \<Rightarrow> Inr f
      | Inl _ \<Rightarrow>
          (case truetype e ''/System/Library/Fonts/Supplemental/Arial Unicode.ttf'' sz of
             Inr f \<Rightarrow> Inr f
           | Inl _ \<Rightarrow> Inr (load_default e None)))"

text \<open>
  \<open>get_font\<close> once more, with its effect made explicit: every call it makes on
  \<open>ImageFont\<close> is appended to a log of calls at the moment it is made, whether the call
  returns or raises. The second component is what \<open>get_font\<close> returns.
\<close>

datatype font_call = Truetype string int | Load_default "int option"

definition get_font_io ::
  "'font env \<Rightarrow> int \<Rightarrow> font_call list \<Rightarrow> font_call list \<times> (py_error + 'font)" where
  "get_font_io e sz log =
     (let log = log @ [Truetype ''/System/Library/Fonts/SFNS.ttf'' sz] in
      case truetype e ''/System/Library/Fonts/SFNS.ttf'' sz of
        Inr f \<Rightarrow> (log, Inr f)
      | Inl _ \<Rightarrow>
          (let log = log @ [Truetype ''/System/Library/Fonts/Supplemental/Arial Unicode.ttf'' sz] in
           case truetype e ''/System/Library/Fonts/Supplemental/Arial Unicode.ttf'' sz of
             Inr f \<Rightarrow> (log, Inr f)
           | Inl _ \<Rightarrow>
               (let log = log @ [Load_default None] in
                (log, Inr (load_default e None)))))"

text \<open>
  \<open>create_icon\<close>, lines 27 to 40: the bitmap is made and drawn on in memory.
  \<open>draw.textbbox(...)[2:]\<close> keeps the right and bottom edges of the box.
\<close>

definition draw_icon :: "'font env \<Rightarrow> int \<Rightarrow> py_error + 'font image" where
  "draw_icon e sz =
     bindE (Image_new ''RGBA'' (sz, sz) [19, 27, 38, 255]) (\<lambda>img.
     let radius = max 6 (sz div 8) in
     bindE (draw e img (Rounded_rectangle (PInt 0, PInt 0, PInt (sz - 1), PInt (sz - 1))
                          radius (Some [25, 32, 45, 255]) None 1)) (\<lambda>img.
     let r = sz div 3; cx = sz div 2; cy = sz div 2 in
     bindE (draw e img (Ellipse (PInt (cx - r), PInt (cy - r), PInt (cx + r), PInt (cy + r))
                          [0, 145, 255, 230])) (\<lambda>img.
     bindE (get_font e (sz div 3)) (\<lambda>font.
     let text = ''A'' in
     bindE (textbbox e font text) (\<lambda>(l, t, tw, th).
     draw e img (Text (PFloat (FSub (FInt cx) (FDiv (FInt tw) (FInt 2))),
                       PFloat (FSub (FInt cy) (FDiv (FInt th) (FInt 2))))
                   text font [255, 255, 255, 255]))))))"

text \<open>\<open>create_icon\<close>, lines 41 to 43: the bitmap is saved and its path returned.\<close>

definition create_icon ::
  "'font env \<Rightarrow> int \<Rightarrow> string \<Rightarrow> 'font world \<Rightarrow> py_error + path \<times> 'font world" where
  "create_icon e sz filename w =
     bindE (draw_icon e sz) (\<lambda>img.
     let out = path_div (ASSETS_DIR e) filename in
     bindE (save e img out w) (\<lambda>w.
     Inr (out, w)))"

text \<open>\<open>range(start, stop, step)\<close> for a positive step.\<close>

function py_range :: "int \<Rightarrow> int \<Rightarrow> int \<Rightarrow> int list" where
  "py_range i stop step =
     (if 0 < step \<and> i < stop then i # py_range (i + step) stop step else [])"
  by pat_completeness auto
termination
  by (relation "measure (\<lambda>(i, stop, step). nat (stop - i))") auto

declare py_range.simps [simp del]

text \<open>The stripes loop of \<open>create_promo\<close>, lines 49 to 51, over the values of \<open>i\<close>.\<close>

fun stripes :: "'font env \<Rightarrow> int \<Rightarrow> int list \<Rightarrow> 'font image \<Rightarrow> py_error + 'font image" where
  "stripes e width [] img = Inr img"
| "stripes e width (i # is) img =
     (let shade = 24 + (i mod 48) in
      bindE (draw e img (Rectangle (PInt 0, PInt i, PInt width, PInt (i + 3))
                           [shade, shade + 2, shade + 5])) (\<lambda>img.
      stripes e width is img))"

text \<open>\<open>create_promo\<close>, lines 46 to 66. The pill text holds U+2011 after \<open>One\<close>.\<close>

definition draw_promo ::
  "'font env \<Rightarrow> int \<Rightarrow> int \<Rightarrow> string \<Rightarrow> string \<Rightarrow> py_error + 'font image" where
  "draw_promo e width height title subtitle =
     bindE (Image_new ''RGB'' (width, height) [17, 24, 39]) (\<lambda>img.
     bindE (stripes e width (py_range 0 height 6) img) (\<lambda>img.
     bindE (get_font e (min (width div 12) 64)) (\<lambda>title_font.
     bindE (get_font e (min (width div 24) 32)) (\<lambda>subtitle_font.
     bindE (textbbox e title_font title) (\<lambda>(l, t, tw, th).
     bindE (draw e img (Text (PFloat (FDiv (FInt (width - tw)) (FInt 2)),
                              PFloat (FSub (FMul (FInt height) (FLit ''0.28''))
                                           (FDiv (FInt th) (FInt 2))))
                          title title_font [255, 255, 255])) (\<lambda>img.
     bindE (textbbox e subtitle_font subtitle) (\<lambda>(l, t, sw, sh).
     bindE (draw e img (Text (PFloat (FDiv (FInt (width - sw)) (FInt 2)),
                              PFloat (FAdd (FAdd (FMul (FInt height) (FLit ''0.28''))
                                                 (FDiv (FInt th) (FInt 2)))
                                           (FInt 12)))
                          subtitle subtitle_font [180, 210, 255])) (\<lambda>img.
     let pill = ''One'' @ [CHR 0xE2, CHR 0x80, CHR 0x91] @ ''click prompt optimization'' in
     bindE (get_font e (min (width div 32) 22)) (\<lambda>pill_font.
     bindE (textbbox e pill_font pill) (\<lambda>(l, t, pw, ph).
     let pad = 16;
         box = (PInt ((width - pw) div 2 - pad),
                PTrunc (FSub (FSub (FMul (FInt height) (FLit ''0.70''))
                                   (FDiv (FInt ph) (FInt 2)))
                             (FInt 10)),
                PInt ((width + pw) div 2 + pad),
                PTrunc (FAdd (FAdd (FMul (FInt height) (FLit ''0.70''))
                                   (FDiv (FInt ph) (FInt 2)))
                             (FInt 10))) in
     bindE (draw e img (Rounded_rectangle box 18 (Some [0, 145, 255]) None 1)) (\<lambda>img.
     draw e img (Text (PFloat (FDiv (FInt (width - pw)) (FInt 2)),
                       PFloat (FSub (FMul (FInt height) (FLit ''0.70''))
                                    (FDiv (FInt ph) (FInt 2))))
                   pill pill_font [0, 0, 0]))))))))))))"

text \<open>\<open>create_promo\<close>, lines 67 to 69.\<close>

definition create_promo ::
  "'font env \<Rightarrow> int \<Rightarrow> int \<Rightarrow> string \<Rightarrow> string \<Rightarrow> string \<Rightarrow> 'font world
     \<Rightarrow> py_error + path \<times> 'font world" where
  "create_promo e width height filename title subtitle w =
     bindE (draw_promo e width height title subtitle) (\<lambda>img.
     let out = path_div (STORE_DIR e) filename in
     bindE (save e img out w) (\<lambda>w.
     Inr (out, w)))"

text \<open>The loop over \<open>range(3)\<close> of \<open>create_screenshot\<close>, lines 84 to 86, counted down.\<close>

fun blocks :: "'font env \<Rightarrow> int \<Rightarrow> nat \<Rightarrow> int \<Rightarrow> 'font image \<Rightarrow> py_error + 'font image" where
  "blocks e width 0 y img = Inr img"
| "blocks e width (Suc n) y img =
     bindE (draw e img (Rounded_rectangle (PInt 48, PInt y, PInt (width - 48), PInt (y + 140))
                          16 (Some [22, 30, 48]) (Some [70, 90, 130]) 2)) (\<lambda>img.
     blocks e width n (y + 160) img)"

text \<open>
  \<open>create_screenshot\<close>, lines 72 to 89. The footer text holds U+2011 after \<open>auto\<close>.
\<close>

definition draw_screenshot :: "'font env \<Rightarrow> string \<Rightarrow> string \<Rightarrow> py_error + 'font image" where
  "draw_screenshot e title subtitle =
     (let width = 1280; height = 800 in
      bindE (Image_new ''RGB'' (width, height) [14, 19, 30]) (\<lambda>img.
      bindE (draw e img (Rectangle (PInt 0, PInt 0, PInt width, PInt 96) [25, 35, 56])) (\<lambda>img.
      bindE (get_font e 52) (\<lambda>title_font.
      bindE (get_font e 28) (\<lambda>subtitle_font.
      bindE (draw e img (Text (PInt 48, PInt 28) title title_font [255, 255, 255])) (\<lambda>img.
      bindE (draw e img (Text (PInt 48, PInt (96 + 24)) subtitle subtitle_font
                           [185, 205, 235])) (\<lambda>img.
      bindE (blocks e width 3 180 img) (\<lambda>img.
      bindE (get_font e 18) (\<lambda>foot_font.
      draw e img (Text (PInt 48, PInt (height - 40))
                    (''Placeholder screenshot (auto'' @ [CHR 0xE2, CHR 0x80, CHR 0x91]
                       @ ''generated)'')
                    foot_font [150, 170, 200]))))))))))"

text \<open>\<open>create_screenshot\<close>, lines 90 to 92.\<close>

definition create_screenshot ::
  "'font env \<Rightarrow> int \<Rightarrow> string \<Rightarrow> string \<Rightarrow> 'font world \<Rightarrow> py_error + path \<times> 'font world" where
  "create_screenshot e idx title subtitle w =
     bindE (draw_screenshot e title subtitle) (\<lambda>img.
     let out = path_div (SCREENSHOTS_DIR e) (''screenshot-'' @ py_str idx @ ''.png'') in
     bindE (save e img out w) (\<lambda>w.
     Inr (out, w)))"

text \<open>\<open>print(line)\<close>.\<close>

definition print :: "string \<Rightarrow> 'font world \<Rightarrow> py_error + 'font world" where
  "print line w = Inr (w\<lparr>stdout := stdout w @ [line]\<rparr>)"

text \<open>
  \<open>main\<close>. The first title holds U+2011 after \<open>One\<close>, the last one U+2192 between
  \<open>Before\<close> and \<open>After\<close>.
\<close>

definition main :: "'font env \<Rightarrow> 'font world \<Rightarrow> py_error + 'font world" where
  "main e w =
     bindE (ensure_dirs e w) (\<lambda>w.
     bindE (create_icon e 16 ''icon16.png'' w) (\<lambda>(out, w).
     bindE (create_icon e 32 ''icon32.png'' w) (\<lambda>(out, w).
     bindE (create_icon e 48 ''icon48.png'' w) (\<lambda>(out, w).
     bindE (create_icon e 128 ''icon128.png'' w) (\<lambda>(out, w).
     bindE (create_screenshot e 1
              (''One'' @ [CHR 0xE2, CHR 0x80, CHR 0x91] @ ''click Optimization'')
              ''Upgrade prompts while preserving intent'' w) (\<lambda>(out, w).
     bindE (create_screenshot e 2 ''Dashboard & Insights''
              ''Track improvements and time saved'' w) (\<lambda>(out, w).
     bindE (create_screenshot e 3 ''Works Across Platforms''
              ''ChatGPT, Claude, Gemini, Perplexity, Copilot, Poe'' w) (\<lambda>(out, w).
     bindE (create_screenshot e 4 ''Achievements''
              ''Build better prompting habits over time'' w) (\<lambda>(out, w).
     bindE (create_screenshot e 5
              (''Before '' @ [CHR 0xE2, CHR 0x86, CHR 0x92] @ '' After'')
              ''See improvements called out clearly'' w) (\<lambda>(out, w).
     bindE (create_promo e 440 280 ''promo-440x280.png'' ''MyAyAI'' ''AI Prompt Optimizer'' w)
       (\<lambda>(out, w).
     print ''Generated icons, screenshots, and promo placeholders.'' w)))))))))))"

section \<open>Notions used in the statements\<close>

text \<open>
  \<open>ancestors p cs\<close> are the directories \<open>mkdir_parents p cs\<close> visits: \<open>p\<close> extended by
  each non-empty initial part of \<open>cs\<close>. \<open>dirs w\<close> are the directories of a world. A
  \<open>permissive\<close> environment is one whose Pillow measures every text and refuses no
  drawing call and no save.
\<close>

fun ancestors :: "path \<Rightarrow> path \<Rightarrow> path set" where
  "ancestors p [] = {}"
| "ancestors p (c # cs) = insert (p @ [c]) (ancestors (p @ [c]) cs)"

definition dirs :: "'font world \<Rightarrow> path set" where
  "dirs w = {p. nodes w p = Some Dir}"

definition permissive :: "'font env \<Rightarrow> bool" where
  "permissive e \<longleftrightarrow>
     (\<forall>f t. \<exists>b. textbbox e f t = Inr b) \<and>
     (\<forall>img op. draw_error e img op = None) \<and>
     (\<forall>img out. save_error e img out = None)"

text \<open>
  The bounding boxes of the \<open>ellipse\<close> calls and the corner radii of the
  \<open>rounded_rectangle\<close> calls made on an image, in order.
\<close>

fun ellipse_boxes :: "'font draw_op list \<Rightarrow> box list" where
  "ellipse_boxes [] = []"
| "ellipse_boxes (Ellipse b c # ops) = b # ellipse_boxes ops"
| "ellipse_boxes (_ # ops) = ellipse_boxes ops"

fun corner_radii :: "'font draw_op list \<Rightarrow> int list" where
  "corner_radii [] = []"
| "corner_radii (Rounded_rectangle b r f out ow # ops) = r # corner_radii ops"
| "corner_radii (_ # ops) = corner_radii ops"

text \<open>
  The paths \<open>main\<close> saves to, in the order of its calls: four icons, five screenshots and
  the promo tile. They are built from \<open>ROOT\<close> and literals of the script only.
\<close>

definition outputs :: "'font env \<Rightarrow> path list" where
  "outputs e =
     [ROOT e @ [''myayai-extension'', ''assets'', ''icons'', ''icon16.png''],
      ROOT e @ [''myayai-extension'', ''assets'', ''icons'', ''icon32.png''],
      ROOT e @ [''myayai-extension'', ''assets'', ''icons'', ''icon48.png''],
      ROOT e @ [''myayai-extension'', ''assets'', ''icons'', ''icon128.png''],
      ROOT e @ [''store-assets'', ''screenshots'', ''screenshot-1.png''],
      ROOT e @ [''store-assets'', ''screenshots'', ''screenshot-2.png''],
      ROOT e @ [''store-assets'', ''screenshots'', ''screenshot-3.png''],
      ROOT e @ [''store-assets'', ''screenshots'', ''screenshot-4.png''],
      ROOT e @ [''store-assets'', ''screenshots'', ''screenshot-5.png''],
      ROOT e @ [''store-assets'', ''promo-440x280.png'']]"

text \<open>
  \<open>encodes e m out\<close>: the drawing \<open>m\<close> returned an image and Pillow has an encoder for it
  at the path \<open>out\<close>. \<open>renders e\<close>: this holds of the ten images \<open>main\<close> makes, which is
  all that a run needs from Pillow and the fonts.
\<close>

definition encodes :: "'font env \<Rightarrow> py_error + 'font image \<Rightarrow> path \<Rightarrow> bool" where
  "encodes e m out \<longleftrightarrow> (\<exists>img. m = Inr img \<and> save_error e img out = None)"

definition renders :: "'font env \<Rightarrow> bool" where
  "renders e \<longleftrightarrow>
     encodes e (draw_icon e 16)
       (ROOT e @ [''myayai-extension'', ''assets'', ''icons'', ''icon16.png'']) \<and>
     encodes e (draw_icon e 32)
       (ROOT e @ [''myayai-extension'', ''assets'', ''icons'', ''icon32.png'']) \<and>
     encodes e (draw_icon e 48)
       (ROOT e @ [''myayai-extension'', ''assets'', ''icons'', ''icon48.png'']) \<and>
     encodes e (draw_icon e 128)
       (ROOT e @ [''myayai-extension'', ''assets'', ''icons'', ''icon128.png'']) \<and>
     encodes e (draw_screenshot e
         (''One'' @ [CHR 0xE2, CHR 0x80, CHR 0x91] @ ''click Optimization'')
         ''Upgrade prompts while preserving intent'')
       (ROOT e @ [''store-assets'', ''screenshots'', ''screenshot-1.png'']) \<and>
     encodes e (draw_screenshot e ''Dashboard & Insights'' ''Track improvements and time saved'')
       (ROOT e @ [''store-assets'', ''screenshots'', ''screenshot-2.png'']) \<and>
     encodes e (draw_screenshot e ''Works Across Platforms''
         ''ChatGPT, Claude, Gemini, Perplexity, Copilot, Poe'')
       (ROOT e @ [''store-assets'', ''screenshots'', ''screenshot-3.png'']) \<and>
     encodes e (draw_screenshot e ''Achievements'' ''Build better prompting habits over time'')
       (ROOT e @ [''store-assets'', ''screenshots'', ''screenshot-4.png'']) \<and>
     encodes e (draw_screenshot e (''Before '' @ [CHR 0xE2, CHR 0x86, CHR 0x92] @ '' After'')
         ''See improvements called out clearly'')
       (ROOT e @ [''store-assets'', ''screenshots'', ''screenshot-5.png'']) \<and>
     encodes e (draw_promo e 440 280 ''MyAyAI'' ''AI Prompt Optimizer'')
       (ROOT e @ [''store-assets'', ''promo-440x280.png''])"

section \<open>Sample installations\<close>

text \<open>
  Three environments on which the statements below are exercised. A font handle is the
  name of the font and its point size. \<open>linux_env\<close> has neither macOS font file, so
  every \<open>truetype\<close> call fails, and its Pillow builds the default font at 10 points
  unless asked for another size; \<open>macos_env\<close> has both font files; \<open>arial_env\<close> lacks
  the first one. \<open>empty_disk\<close> is a file system with nothing below the root;
  \<open>icons_disk\<close> holds the icons directory of \<open>linux_env\<close> and nothing else;
  \<open>stale_disk\<close> is \<open>icons_disk\<close> with a 64-pixel icon left in that directory.
\<close>

definition linux_env :: "(string \<times> int) env" where
  "linux_env = \<lparr>ROOT = [''home'', ''dev'', ''myayai''],
     truetype = (\<lambda>p s. Inl OSError),
     load_default = (\<lambda>s. (''Aileron'', case s of None \<Rightarrow> 10 | Some n \<Rightarrow> n)),
     textbbox = (\<lambda>f t. Inr (0, 2, int (length t) * snd f div 2, snd f)),
     draw_error = (\<lambda>img op. None),
     save_error = (\<lambda>img out. None)\<rparr>"

definition macos_env :: "(string \<times> int) env" where
  "macos_env = linux_env\<lparr>ROOT := [''Users'', ''dev'', ''myayai''],
     truetype := (\<lambda>p s. if 0 < s then Inr (p, s) else Inl ValueError)\<rparr>"

definition arial_env :: "(string \<times> int) env" where
  "arial_env = macos_env\<lparr>truetype := (\<lambda>p s.
     if p = ''/System/Library/Fonts/SFNS.ttf'' then Inl OSError
     else if 0 < s then Inr (p, s) else Inl ValueError)\<rparr>"

definition empty_disk :: "(string \<times> int) world" where
  "empty_disk = \<lparr>nodes = Map.empty, saved = [], stdout = []\<rparr>"

definition icons_disk :: "(string \<times> int) world" where
  "icons_disk =
     \<lparr>nodes = (\<lambda>p. if p \<in> {[''home''], [''home'', ''dev''], [''home'', ''dev'', ''myayai''],
                          [''home'', ''dev'', ''myayai'', ''myayai-extension''],
                          [''home'', ''dev'', ''myayai'', ''myayai-extension'', ''assets''],
                          [''home'', ''dev'', ''myayai'', ''myayai-extension'', ''assets'',
                           ''icons'']}
                  then Some Dir else None),
      saved = [], stdout = []\<rparr>"

definition stale_disk :: "(string \<times> int) world" where
  "stale_disk =
     icons_disk\<lparr>nodes := (nodes icons_disk)
       ([''home'', ''dev'', ''myayai'', ''myayai-extension'', ''assets'', ''icons'',
         ''icon64.png''] \<mapsto>
        File \<lparr>im_mode = ''RGBA'', im_width = 64, im_height = 64,
              im_color = [19, 27, 38, 255], im_ops = []\<rparr>)\<rparr>"

section \<open>Font resolution\<close>

lemma bindE_Inr_iff: "bindE m f = Inr y \<longleftrightarrow> (\<exists>x. m = Inr x \<and> f x = Inr y)"
  by (cases m) (simp_all add: bindE_def)

lemma bindE_Inr [simp]: "bindE (Inr x) f = f x"
  by (simp add: bindE_def)

lemma bindE_Inl [simp]: "bindE (Inl x) f = Inl x"
  by (simp add: bindE_def)

text \<open>
  C1. For every requested size \<open>get_font\<close> returns a font handle and raises nothing,
  whatever \<open>truetype\<close> does; and when \<open>truetype\<close> fails on every path, with whatever
  exception, the handle returned is the built-in default font.
\<close>

theorem get_font_never_raises:
  "(\<exists>f. get_font e sz = Inr f) \<and>
   get_font (e\<lparr>truetype := \<lambda>p s. Inl (x p s)\<rparr>) sz = Inr (load_default e None)"
  by (simp add: get_font_def split: sum.splits)

text \<open>
  C6. The calls \<open>get_font\<close> makes on \<open>ImageFont\<close>, as the log of \<open>get_font_io\<close>
  records them, come in a fixed order and stop at the first that returns. If the primary
  path loads, \<open>truetype\<close> on the primary path is the only call and its font is the
  result: the alternate path and the default are not consulted. If the primary fails and
  the alternate loads, the calls are the primary, then the alternate, and the alternate's
  font is the result: the default is not consulted. Only when both fail is
  \<open>load_default\<close> called, third and last, and its font is the result. The result is
  in every case what \<open>get_font\<close> returns.
\<close>

theorem get_font_order:
  "(truetype e ''/System/Library/Fonts/SFNS.ttf'' sz = Inr f \<longrightarrow>
      get_font_io e sz log = (log @ [Truetype ''/System/Library/Fonts/SFNS.ttf'' sz], Inr f)) \<and>
   (truetype e ''/System/Library/Fonts/SFNS.ttf'' sz = Inl x \<and>
    truetype e ''/System/Library/Fonts/Supplemental/Arial Unicode.ttf'' sz = Inr f \<longrightarrow>
      get_font_io e sz log =
        (log @ [Truetype ''/System/Library/Fonts/SFNS.ttf'' sz,
                Truetype ''/System/Library/Fonts/Supplemental/Arial Unicode.ttf'' sz], Inr f)) \<and>
   (truetype e ''/System/Library/Fonts/SFNS.ttf'' sz = Inl x \<and>
    truetype e ''/System/Library/Fonts/Supplemental/Arial Unicode.ttf'' sz = Inl y \<longrightarrow>
      get_font_io e sz log =
        (log @ [Truetype ''/System/Library/Fonts/SFNS.ttf'' sz,
                Truetype ''/System/Library/Fonts/Supplemental/Arial Unicode.ttf'' sz,
                Load_default None], Inr (load_default e None))) \<and>
   snd (get_font_io e sz log) = get_font e sz"
  by (simp add: get_font_io_def get_font_def split: sum.splits)

theorem get_font_order_witness:
  "(truetype macos_env ''/System/Library/Fonts/SFNS.ttf'' 52
      = Inr (''/System/Library/Fonts/SFNS.ttf'', 52) \<and>
    get_font_io macos_env 52 []
      = ([Truetype ''/System/Library/Fonts/SFNS.ttf'' 52],
         Inr (''/System/Library/Fonts/SFNS.ttf'', 52))) \<and>
   (truetype arial_env ''/System/Library/Fonts/SFNS.ttf'' 52 = Inl OSError \<and>
    truetype arial_env ''/System/Library/Fonts/Supplemental/Arial Unicode.ttf'' 52
      = Inr (''/System/Library/Fonts/Supplemental/Arial Unicode.ttf'', 52) \<and>
    get_font_io arial_env 52 []
      = ([Truetype ''/System/Library/Fonts/SFNS.ttf'' 52,
          Truetype ''/System/Library/Fonts/Supplemental/Arial Unicode.ttf'' 52],
         Inr (''/System/Library/Fonts/Supplemental/Arial Unicode.ttf'', 52))) \<and>
   (truetype linux_env ''/System/Library/Fonts/SFNS.ttf'' 52 = Inl OSError \<and>
    truetype linux_env ''/System/Library/Fonts/Supplemental/Arial Unicode.ttf'' 52 = Inl OSError \<and>
    get_font_io linux_env 52 []
      = ([Truetype ''/System/Library/Fonts/SFNS.ttf'' 52,
          Truetype ''/System/Library/Fonts/Supplemental/Arial Unicode.ttf'' 52,
          Load_default None],
         Inr (''Aileron'', 10)))"
proof -
  have m1: "truetype macos_env ''/System/Library/Fonts/SFNS.ttf'' 52
              = Inr (''/System/Library/Fonts/SFNS.ttf'', 52)"
    by (simp add: macos_env_def linux_env_def)
  have a1: "truetype arial_env ''/System/Library/Fonts/SFNS.ttf'' 52 = Inl OSError"
    by (simp add: arial_env_def macos_env_def linux_env_def)
  have a2: "truetype arial_env ''/System/Library/Fonts/Supplemental/Arial Unicode.ttf'' 52
              = Inr (''/System/Library/Fonts/Supplemental/Arial Unicode.ttf'', 52)"
    by (simp add: arial_env_def macos_env_def linux_env_def)
  have l1: "truetype linux_env ''/System/Library/Fonts/SFNS.ttf'' 52 = Inl OSError"
    by (simp add: linux_env_def)
  have l2: "truetype linux_env ''/System/Library/Fonts/Supplemental/Arial Unicode.ttf'' 52
              = Inl OSError"
    by (simp add: linux_env_def)
  have l3: "load_default linux_env None = (''Aileron'', 10)"
    by (simp add: linux_env_def)
  from get_font_order [where e = macos_env and sz = 52 and log = "[]"
      and f = "(''/System/Library/Fonts/SFNS.ttf'', 52)"] m1
  have m: "get_font_io macos_env 52 []
      = ([Truetype ''/System/Library/Fonts/SFNS.ttf'' 52],
         Inr (''/System/Library/Fonts/SFNS.ttf'', 52))"
    by simp
  from get_font_order [where e = arial_env and sz = 52 and log = "[]" and x = OSError
      and f = "(''/System/Library/Fonts/Supplemental/Arial Unicode.ttf'', 52)"] a1 a2
  have a: "get_font_io arial_env 52 []
      = ([Truetype ''/System/Library/Fonts/SFNS.ttf'' 52,
          Truetype ''/System/Library/Fonts/Supplemental/Arial Unicode.ttf'' 52],
         Inr (''/System/Library/Fonts/Supplemental/Arial Unicode.ttf'', 52))"
    by simp
  from get_font_order [where e = linux_env and sz = 52 and log = "[]" and x = OSError
      and y = OSError] l1 l2 l3
  have l: "get_font_io linux_env 52 []
      = ([Truetype ''/System/Library/Fonts/SFNS.ttf'' 52,
          Truetype ''/System/Library/Fonts/Supplemental/Arial Unicode.ttf'' 52,
          Load_default None],
         Inr (''Aileron'', 10))"
    by simp
  from m1 m a1 a2 a l1 l2 l show ?thesis by blast
qed

text \<open>
  C9. When both candidates fail, \<open>load_default\<close> is called without a size, so the
  font returned is the same for every requested size. On \<open>linux_env\<close> it is the
  10-point default, not the default font at the requested 52 points.
\<close>

theorem get_font_fallback_ignores_size:
  assumes "truetype e ''/System/Library/Fonts/SFNS.ttf'' s1 = Inl a1"
    and "truetype e ''/System/Library/Fonts/Supplemental/Arial Unicode.ttf'' s1 = Inl b1"
    and "truetype e ''/System/Library/Fonts/SFNS.ttf'' s2 = Inl a2"
    and "truetype e ''/System/Library/Fonts/Supplemental/Arial Unicode.ttf'' s2 = Inl b2"
  shows "get_font e s1 = Inr (load_default e None) \<and> get_font e s2 = get_font e s1"
  using assms by (simp add: get_font_def)

theorem get_font_fallback_ignores_size_witness:
  "get_font linux_env 5 = Inr (load_default linux_env None) \<and>
   get_font linux_env 52 = get_font linux_env 5 \<and>
   load_default linux_env None \<noteq> load_default linux_env (Some 52)"
proof -
  have t: "truetype linux_env p s = Inl OSError" for p s
    by (simp add: linux_env_def)
  have "load_default linux_env None \<noteq> load_default linux_env (Some 52)"
    by (simp add: linux_env_def)
  with get_font_fallback_ignores_size [OF t t t t, of 5 52] show ?thesis
    by blast
qed

section \<open>The bitmaps\<close>

lemma Image_new_Inr_iff:
  "Image_new m sz c = Inr img \<longleftrightarrow>
     0 \<le> fst sz \<and> 0 \<le> snd sz \<and>
     img = \<lparr>im_mode = m, im_width = fst sz, im_height = snd sz, im_color = c, im_ops = []\<rparr>"
  by (auto simp: Image_new_def)

lemma draw_Inr_iff:
  "draw e img op = Inr img' \<longleftrightarrow>
     draw_error e img op = None \<and> img' = img\<lparr>im_ops := im_ops img @ [op]\<rparr>"
  by (auto simp: draw_def split: option.splits)

lemma draw_frame:
  assumes "draw e img op = Inr img'"
  shows "im_width img' = im_width img" and "im_height img' = im_height img"
  using assms by (auto simp: draw_Inr_iff)

lemma stripes_frame:
  "stripes e width is img = Inr img' \<Longrightarrow>
     im_width img' = im_width img \<and> im_height img' = im_height img"
proof (induction "is" arbitrary: img)
  case Nil
  then show ?case by simp
next
  case (Cons i "is")
  from Cons.prems obtain img1 where
    d: "draw e img (Rectangle (PInt 0, PInt i, PInt width, PInt (i + 3))
          [24 + i mod 48, 24 + i mod 48 + 2, 24 + i mod 48 + 5]) = Inr img1"
    and r: "stripes e width is img1 = Inr img'"
    by (auto simp: Let_def bindE_Inr_iff)
  from Cons.IH [OF r] draw_frame [OF d] show ?case by simp
qed

lemma blocks_frame:
  "blocks e width n y img = Inr img' \<Longrightarrow>
     im_width img' = im_width img \<and> im_height img' = im_height img"
proof (induction n arbitrary: y img)
  case 0
  then show ?case by simp
next
  case (Suc n)
  from Suc.prems obtain img1 where
    d: "draw e img (Rounded_rectangle (PInt 48, PInt y, PInt (width - 48), PInt (y + 140))
          16 (Some [22, 30, 48]) (Some [70, 90, 130]) 2) = Inr img1"
    and r: "blocks e width n (y + 160) img1 = Inr img'"
    by (auto simp: bindE_Inr_iff)
  from Suc.IH [OF r] draw_frame [OF d] show ?case by simp
qed

lemma draw_icon_Inr:
  assumes "draw_icon e sz = Inr img"
  shows "\<exists>font l t tw th.
     get_font e (sz div 3) = Inr font \<and> textbbox e font ''A'' = Inr (l, t, tw, th) \<and>
     img = \<lparr>im_mode = ''RGBA'', im_width = sz, im_height = sz, im_color = [19, 27, 38, 255],
       im_ops =
         [Rounded_rectangle (PInt 0, PInt 0, PInt (sz - 1), PInt (sz - 1))
            (max 6 (sz div 8)) (Some [25, 32, 45, 255]) None 1,
          Ellipse (PInt (sz div 2 - sz div 3), PInt (sz div 2 - sz div 3),
                   PInt (sz div 2 + sz div 3), PInt (sz div 2 + sz div 3))
            [0, 145, 255, 230],
          Text (PFloat (FSub (FInt (sz div 2)) (FDiv (FInt tw) (FInt 2))),
                PFloat (FSub (FInt (sz div 2)) (FDiv (FInt th) (FInt 2))))
            ''A'' font [255, 255, 255, 255]]\<rparr>"
  using assms
  by (auto simp: draw_icon_def bindE_Inr_iff Let_def Image_new_Inr_iff draw_Inr_iff)

lemma draw_screenshot_frame:
  assumes "draw_screenshot e title subtitle = Inr img"
  shows "im_width img = 1280 \<and> im_height img = 800"
  using assms
  by (auto simp: draw_screenshot_def bindE_Inr_iff Let_def Image_new_Inr_iff draw_Inr_iff
      dest!: blocks_frame)

lemma draw_promo_frame:
  assumes "draw_promo e width height title subtitle = Inr img"
  shows "im_width img = width \<and> im_height img = height"
  using assms
  by (auto simp: draw_promo_def bindE_Inr_iff Let_def Image_new_Inr_iff draw_Inr_iff
      dest!: stripes_frame)

subsection \<open>Drawing succeeds when Pillow refuses nothing\<close>

lemma permissive_draw: "permissive e \<Longrightarrow> draw e img op = Inr (img\<lparr>im_ops := im_ops img @ [op]\<rparr>)"
  by (simp add: permissive_def draw_def)

lemma permissive_textbbox:
  "permissive e \<Longrightarrow> \<exists>l t r b. textbbox e f s = Inr (l, t, r, b)"
  by (metis permissive_def prod_cases4)

lemma stripes_total: "permissive e \<Longrightarrow> \<exists>img'. stripes e width is img = Inr img'"
  by (induction "is" arbitrary: img) (simp_all add: Let_def permissive_draw)

lemma blocks_total: "permissive e \<Longrightarrow> \<exists>img'. blocks e width n y img = Inr img'"
  by (induction n arbitrary: y img) (simp_all add: permissive_draw)

lemma get_font_total: "\<exists>f. get_font e sz = Inr f"
  by (simp add: get_font_def split: sum.splits)

lemma draw_icon_total:
  assumes "permissive e" and "0 \<le> sz"
  shows "\<exists>img. draw_icon e sz = Inr img"
proof -
  obtain f where f: "get_font e (sz div 3) = Inr f"
    using get_font_total [of e "sz div 3"] by blast
  obtain l t r b where b: "textbbox e f ''A'' = Inr (l, t, r, b)"
    using permissive_textbbox [OF assms(1), of f "''A''"] by blast
  show ?thesis
    using assms(2) by (simp add: draw_icon_def Image_new_def Let_def permissive_draw [OF assms(1)] f b)
qed

lemma draw_screenshot_total:
  assumes "permissive e"
  shows "\<exists>img. draw_screenshot e title subtitle = Inr img"
proof -
  obtain f1 f2 f3 where f: "get_font e 52 = Inr f1" "get_font e 28 = Inr f2" "get_font e 18 = Inr f3"
    using get_font_total [of e 52] get_font_total [of e 28] get_font_total [of e 18] by blast
  have "\<exists>img'. blocks e 1280 3 180 img = Inr img'" for img
    using blocks_total [OF assms] by blast
  then show ?thesis
    by (auto simp add: draw_screenshot_def Image_new_def Let_def permissive_draw [OF assms] f bindE_Inr_iff)
qed

lemma draw_promo_total:
  assumes "permissive e" and "0 \<le> width" and "0 \<le> height"
  shows "\<exists>img. draw_promo e width height title subtitle = Inr img"
proof -
  obtain f1 f2 f3 where f: "get_font e (min (width div 12) 64) = Inr f1"
    "get_font e (min (width div 24) 32) = Inr f2" "get_font e (min (width div 32) 22) = Inr f3"
    using get_font_total [of e "min (width div 12) 64"] get_font_total [of e "min (width div 24) 32"]
      get_font_total [of e "min (width div 32) 22"] by blast
  obtain l1 t1 r1 b1 where b1: "textbbox e f1 title = Inr (l1, t1, r1, b1)"
    using permissive_textbbox [OF assms(1), of f1 title] by blast
  obtain l2 t2 r2 b2 where b2: "textbbox e f2 subtitle = Inr (l2, t2, r2, b2)"
    using permissive_textbbox [OF assms(1), of f2 subtitle] by blast
  obtain l3 t3 r3 b3 where b3: "textbbox e f3
      (''One'' @ [CHR 0xE2, CHR 0x80, CHR 0x91] @ ''click prompt optimization'') = Inr (l3, t3, r3, b3)"
    using permissive_textbbox [OF assms(1), of f3] by blast
  obtain img1 where s: "stripes e width (py_range 0 height 6)
      \<lparr>im_mode = ''RGB'', im_width = width, im_height = height, im_color = [17, 24, 39], im_ops = []\<rparr> = Inr img1"
    using stripes_total [OF assms(1), of width "py_range 0 height 6"] by blast
  show ?thesis
    using assms(2,3) b3
    by (simp add: draw_promo_def Image_new_def Let_def permissive_draw [OF assms(1)] f b1 b2 s)
qed

section \<open>Saving and the icon generator\<close>

lemma save_Inr_iff:
  "save e img out w = Inr w' \<longleftrightarrow>
     save_error e img out = None \<and> out \<noteq> [] \<and> nodes w out \<noteq> Some Dir \<and>
     is_dir w (butlast out) \<and>
     w' = w\<lparr>nodes := (nodes w)(out \<mapsto> File img), saved := saved w @ [out]\<rparr>"
  by (auto simp: save_def split: option.splits node.splits)

lemma save_effect:
  assumes "save e img out w = Inr w'"
  shows "nodes w' = (nodes w)(out \<mapsto> File img)" and "saved w' = saved w @ [out]"
    and "stdout w' = stdout w"
  using assms by (auto simp: save_Inr_iff)

lemma create_icon_Inr_iff:
  "create_icon e sz filename w = Inr (out, w') \<longleftrightarrow>
     out = path_div (ASSETS_DIR e) filename \<and>
     (\<exists>img. draw_icon e sz = Inr img \<and> save e img out w = Inr w')"
  by (auto simp: create_icon_def bindE_Inr_iff Let_def)

lemma create_screenshot_Inr_iff:
  "create_screenshot e idx title subtitle w = Inr (out, w') \<longleftrightarrow>
     out = path_div (SCREENSHOTS_DIR e) (''screenshot-'' @ py_str idx @ ''.png'') \<and>
     (\<exists>img. draw_screenshot e title subtitle = Inr img \<and> save e img out w = Inr w')"
  by (auto simp: create_screenshot_def bindE_Inr_iff Let_def)

lemma create_promo_Inr_iff:
  "create_promo e width height filename title subtitle w = Inr (out, w') \<longleftrightarrow>
     out = path_div (STORE_DIR e) filename \<and>
     (\<exists>img. draw_promo e width height title subtitle = Inr img \<and> save e img out w = Inr w')"
  by (auto simp: create_promo_def bindE_Inr_iff Let_def)

lemma create_icon_file:
  assumes "create_icon e sz filename w = Inr (out, w')"
  obtains img where "draw_icon e sz = Inr img" and "nodes w' out = Some (File img)"
  using assms by (auto simp: create_icon_Inr_iff save_Inr_iff)

lemma permissive_linux_env: "permissive linux_env"
  by (simp add: permissive_def linux_env_def)

lemma icon16_created: "\<exists>out w'. create_icon linux_env 16 ''icon16.png'' icons_disk = Inr (out, w')"
proof -
  obtain img where "draw_icon linux_env 16 = Inr img"
    using draw_icon_total [OF permissive_linux_env, of 16] by auto
  then show ?thesis
    by (simp add: create_icon_Inr_iff save_Inr_iff ASSETS_DIR_def path_div_def parts_def
        is_dir_def) (simp add: linux_env_def icons_disk_def)
qed

text \<open>
  C2. For every icon size \<open>sz > 0\<close>, when \<open>create_icon sz filename\<close> returns, the file
  at the path it returns is an image whose width and height are both \<open>sz\<close>.
\<close>

theorem create_icon_dimensions:
  assumes "0 < sz" and "create_icon e sz filename w = Inr (out, w')"
  shows "\<exists>img. nodes w' out = Some (File img) \<and> im_width img = sz \<and> im_height img = sz"
proof -
  from assms(2) obtain img where d: "draw_icon e sz = Inr img" and n: "nodes w' out = Some (File img)"
    by (rule create_icon_file)
  from draw_icon_Inr [OF d] have "im_width img = sz \<and> im_height img = sz"
    by auto
  with n show ?thesis by blast
qed

theorem create_icon_dimensions_witness:
  "\<exists>out w' img. create_icon linux_env 16 ''icon16.png'' icons_disk = Inr (out, w') \<and>
      nodes w' out = Some (File img) \<and> im_width img = 16 \<and> im_height img = 16"
proof -
  from icon16_created obtain out w' where
    c: "create_icon linux_env 16 ''icon16.png'' icons_disk = Inr (out, w')"
    by blast
  have "(0::int) < 16" by simp
  from create_icon_dimensions [OF this c] c show ?thesis by blast
qed

text \<open>
  C5, as amended. For every positive icon size the saved icon carries exactly one
  \<open>ellipse\<close> call. Its bounding box is \<open>(cx - r, cy - r, cx + r, cy + r)\<close> with
  \<open>cx = cy = sz div 2\<close> and \<open>r = sz div 3\<close>: the box is centred on the pixel
  \<open>(sz div 2, sz div 2)\<close>, and it is the radius that is one third of the side, rounded
  down, so that the circle is \<open>2 * (sz div 3)\<close> from edge to edge, about two thirds of
  the side.
\<close>

theorem icon_circle_centred:
  assumes "0 < sz" and "create_icon e sz filename w = Inr (out, w')"
  shows "\<exists>img x0 y0 x1 y1.
           nodes w' out = Some (File img) \<and>
           ellipse_boxes (im_ops img) = [(PInt x0, PInt y0, PInt x1, PInt y1)] \<and>
           x0 + x1 = 2 * (im_width img div 2) \<and> y0 + y1 = 2 * (im_height img div 2) \<and>
           x1 - x0 = 2 * (sz div 3) \<and> y1 - y0 = 2 * (sz div 3) \<and>
           im_width img = sz \<and> im_height img = sz"
proof -
  from assms(2) obtain img where d: "draw_icon e sz = Inr img" and n: "nodes w' out = Some (File img)"
    by (rule create_icon_file)
  from draw_icon_Inr [OF d] have
    "ellipse_boxes (im_ops img) =
       [(PInt (sz div 2 - sz div 3), PInt (sz div 2 - sz div 3),
         PInt (sz div 2 + sz div 3), PInt (sz div 2 + sz div 3))]"
    and "im_width img = sz" and "im_height img = sz"
    by auto
  with n show ?thesis by simp
qed

theorem icon_circle_centred_witness:
  "\<exists>out w' img. create_icon linux_env 16 ''icon16.png'' icons_disk = Inr (out, w') \<and>
      nodes w' out = Some (File img) \<and>
      ellipse_boxes (im_ops img) = [(PInt 3, PInt 3, PInt 13, PInt 13)]"
proof -
  from icon16_created obtain out w' where
    c: "create_icon linux_env 16 ''icon16.png'' icons_disk = Inr (out, w')"
    by blast
  have "(0::int) < 16" by simp
  from icon_circle_centred [OF this c] obtain img x0 y0 x1 y1 where
    "nodes w' out = Some (File img)"
    "ellipse_boxes (im_ops img) = [(PInt x0, PInt y0, PInt x1, PInt y1)]"
    "x0 + x1 = 2 * (im_width img div 2)" "y0 + y1 = 2 * (im_height img div 2)"
    "x1 - x0 = 2 * (16 div 3)" "y1 - y0 = 2 * (16 div 3)"
    "im_width img = 16" "im_height img = 16"
    by blast
  moreover from this have "x0 = 3" "x1 = 13" "y0 = 3" "y1 = 13" by simp_all
  ultimately show ?thesis using c by blast
qed

lemma icon128_created:
  "\<exists>out w'. create_icon linux_env 128 ''icon128.png'' icons_disk = Inr (out, w')"
proof -
  obtain img where "draw_icon linux_env 128 = Inr img"
    using draw_icon_total [OF permissive_linux_env, of 128] by auto
  then show ?thesis
    by (simp add: create_icon_Inr_iff save_Inr_iff ASSETS_DIR_def path_div_def parts_def
        is_dir_def) (simp add: linux_env_def icons_disk_def)
qed

text \<open>
  C5 as stated fails at size 128, one of the sizes \<open>main\<close> asks for. The box of the
  circle is \<open>(22, 22, 106, 106)\<close>: it is 84 across, twice one third of the side and not
  one third of it (\<open>128 div 3 = 42\<close>); and it leaves 22 pixels free on the left and above
  but 21 on the right and below (the last pixel is 127), so it is a pixel off the middle
  of the bitmap.
\<close>

theorem icon_circle_counterexample:
  "\<exists>out w' img. create_icon linux_env 128 ''icon128.png'' icons_disk = Inr (out, w') \<and>
      nodes w' out = Some (File img) \<and> im_width img = 128 \<and> im_height img = 128 \<and>
      ellipse_boxes (im_ops img) = [(PInt 22, PInt 22, PInt 106, PInt 106)] \<and>
      (106::int) - 22 \<noteq> 128 div 3 \<and> (106::int) - 22 = 2 * (128 div 3) \<and>
      (22::int) - 0 \<noteq> (128 - 1) - 106"
proof -
  from icon128_created obtain out w' where
    c: "create_icon linux_env 128 ''icon128.png'' icons_disk = Inr (out, w')"
    by blast
  then obtain img where d: "draw_icon linux_env 128 = Inr img"
    and n: "nodes w' out = Some (File img)"
    by (rule create_icon_file)
  from draw_icon_Inr [OF d] have
    "ellipse_boxes (im_ops img) = [(PInt 22, PInt 22, PInt 106, PInt 106)]"
    and "im_width img = 128" and "im_height img = 128"
    by auto
  with c n show ?thesis by simp
qed

text \<open>
  C10. For every icon size the corner radius of the rounded rectangle drawn by
  \<open>create_icon\<close> is \<open>max 6 (sz div 8)\<close>. For every size below 48 it is 6, and for the
  16-pixel icon 6 is more than one eighth of the side.
\<close>

theorem icon_corner_radius:
  assumes "create_icon e sz filename w = Inr (out, w')"
  shows "\<exists>img. nodes w' out = Some (File img) \<and>
           corner_radii (im_ops img) = [max 6 (sz div 8)] \<and>
           (sz < 48 \<longrightarrow> corner_radii (im_ops img) = [6]) \<and>
           (sz = 16 \<longrightarrow> corner_radii (im_ops img) = [6] \<and> sz div 8 < 6)"
proof -
  from assms obtain img where d: "draw_icon e sz = Inr img" and n: "nodes w' out = Some (File img)"
    by (rule create_icon_file)
  from draw_icon_Inr [OF d] have r: "corner_radii (im_ops img) = [max 6 (sz div 8)]"
    by auto
  have "sz < 48 \<Longrightarrow> max 6 (sz div 8) = 6"
    by simp
  with n r show ?thesis by auto
qed

theorem icon_corner_radius_witness:
  "\<exists>out w' img. create_icon linux_env 16 ''icon16.png'' icons_disk = Inr (out, w') \<and>
      nodes w' out = Some (File img) \<and> corner_radii (im_ops img) = [6] \<and> (16::int) div 8 < 6"
proof -
  from icon16_created obtain out w' where
    c: "create_icon linux_env 16 ''icon16.png'' icons_disk = Inr (out, w')"
    by blast
  from icon_corner_radius [OF c] c show ?thesis by auto
qed

section \<open>The driver\<close>

lemma parts_simple [simp]:
  "parts ''myayai-extension'' = [''myayai-extension'']"
  "parts ''assets'' = [''assets'']"
  "parts ''icons'' = [''icons'']"
  "parts ''store-assets'' = [''store-assets'']"
  "parts ''screenshots'' = [''screenshots'']"
  "parts ''icon16.png'' = [''icon16.png'']"
  "parts ''icon32.png'' = [''icon32.png'']"
  "parts ''icon48.png'' = [''icon48.png'']"
  "parts ''icon128.png'' = [''icon128.png'']"
  "parts ''promo-440x280.png'' = [''promo-440x280.png'']"
  by (simp_all add: parts_def)

lemma ASSETS_DIR_eq: "ASSETS_DIR e = ROOT e @ [''myayai-extension'', ''assets'', ''icons'']"
  by (simp add: ASSETS_DIR_def path_div_def)

lemma STORE_DIR_eq: "STORE_DIR e = ROOT e @ [''store-assets'']"
  by (simp add: STORE_DIR_def path_div_def)

lemma SCREENSHOTS_DIR_eq: "SCREENSHOTS_DIR e = ROOT e @ [''store-assets'', ''screenshots'']"
  by (simp add: SCREENSHOTS_DIR_def STORE_DIR_eq path_div_def)

lemma py_str_digit:
  "py_str 1 = ''1''" "py_str 2 = ''2''" "py_str 3 = ''3''" "py_str 4 = ''4''" "py_str 5 = ''5''"
  by (simp_all add: py_str_def digits.simps)

lemma screenshot_paths:
  "path_div p (''screenshot-'' @ py_str 1 @ ''.png'') = p @ [''screenshot-1.png'']"
  "path_div p (''screenshot-'' @ py_str 2 @ ''.png'') = p @ [''screenshot-2.png'']"
  "path_div p (''screenshot-'' @ py_str 3 @ ''.png'') = p @ [''screenshot-3.png'']"
  "path_div p (''screenshot-'' @ py_str 4 @ ''.png'') = p @ [''screenshot-4.png'']"
  "path_div p (''screenshot-'' @ py_str 5 @ ''.png'') = p @ [''screenshot-5.png'']"
  by (simp_all add: py_str_digit path_div_def parts_def)

lemma icon_paths:
  "path_div (ASSETS_DIR e) ''icon16.png'' = ROOT e @ [''myayai-extension'', ''assets'', ''icons'', ''icon16.png'']"
  "path_div (ASSETS_DIR e) ''icon32.png'' = ROOT e @ [''myayai-extension'', ''assets'', ''icons'', ''icon32.png'']"
  "path_div (ASSETS_DIR e) ''icon48.png'' = ROOT e @ [''myayai-extension'', ''assets'', ''icons'', ''icon48.png'']"
  "path_div (ASSETS_DIR e) ''icon128.png'' = ROOT e @ [''myayai-extension'', ''assets'', ''icons'', ''icon128.png'']"
  by (simp_all add: ASSETS_DIR_eq path_div_def)

lemma shot_paths:
  "path_div (SCREENSHOTS_DIR e) (''screenshot-'' @ py_str 1 @ ''.png'') = ROOT e @ [''store-assets'', ''screenshots'', ''screenshot-1.png'']"
  "path_div (SCREENSHOTS_DIR e) (''screenshot-'' @ py_str 2 @ ''.png'') = ROOT e @ [''store-assets'', ''screenshots'', ''screenshot-2.png'']"
  "path_div (SCREENSHOTS_DIR e) (''screenshot-'' @ py_str 3 @ ''.png'') = ROOT e @ [''store-assets'', ''screenshots'', ''screenshot-3.png'']"
  "path_div (SCREENSHOTS_DIR e) (''screenshot-'' @ py_str 4 @ ''.png'') = ROOT e @ [''store-assets'', ''screenshots'', ''screenshot-4.png'']"
  "path_div (SCREENSHOTS_DIR e) (''screenshot-'' @ py_str 5 @ ''.png'') = ROOT e @ [''store-assets'', ''screenshots'', ''screenshot-5.png'']"
  unfolding screenshot_paths SCREENSHOTS_DIR_eq by simp_all

lemma promo_path:
  "path_div (STORE_DIR e) ''promo-440x280.png'' = ROOT e @ [''store-assets'', ''promo-440x280.png'']"
  by (simp add: STORE_DIR_eq path_div_def)

lemma create_icon_effect:
  assumes "create_icon e sz filename w = Inr (out, w')"
  obtains img where "draw_icon e sz = Inr img" and "out = path_div (ASSETS_DIR e) filename"
    and "save e img out w = Inr w'"
  using assms by (auto simp: create_icon_Inr_iff)

lemma create_screenshot_effect:
  assumes "create_screenshot e idx title subtitle w = Inr (out, w')"
  obtains img where "draw_screenshot e title subtitle = Inr img"
    and "out = path_div (SCREENSHOTS_DIR e) (''screenshot-'' @ py_str idx @ ''.png'')"
    and "save e img out w = Inr w'"
  using assms by (auto simp: create_screenshot_Inr_iff)

lemma create_promo_effect:
  assumes "create_promo e width height filename title subtitle w = Inr (out, w')"
  obtains img where "draw_promo e width height title subtitle = Inr img"
    and "out = path_div (STORE_DIR e) filename"
    and "save e img out w = Inr w'"
  using assms by (auto simp: create_promo_Inr_iff)


subsection \<open>Directories\<close>

lemma ancestors_append:
  "ancestors p (xs @ ys) = ancestors p xs \<union> ancestors (p @ xs) ys"
  by (induction xs arbitrary: p) auto

lemma ancestors_length:
  "q \<in> ancestors p cs \<Longrightarrow> length p < length q \<and> length q \<le> length p + length cs"
proof (induction cs arbitrary: p)
  case Nil
  then show ?case by simp
next
  case (Cons c cs)
  from Cons.prems have "q = p @ [c] \<or> q \<in> ancestors (p @ [c]) cs"
    by simp
  then show ?case
  proof
    assume "q = p @ [c]"
    then show ?thesis by simp
  next
    assume "q \<in> ancestors (p @ [c]) cs"
    from Cons.IH [OF this] show ?thesis by simp
  qed
qed

lemma mkdir_parents_Inr:
  "mkdir_parents p cs w = Inr w' \<Longrightarrow>
     nodes w' = (\<lambda>q. if q \<in> ancestors p cs then Some Dir else nodes w q) \<and>
     saved w' = saved w \<and> stdout w' = stdout w"
proof (induction cs arbitrary: p w)
  case Nil
  then show ?case by auto
next
  case (Cons c cs)
  show ?case
  proof (cases "nodes w (p @ [c])")
    case None
    with Cons.prems have
      "mkdir_parents (p @ [c]) cs (w\<lparr>nodes := (nodes w)(p @ [c] \<mapsto> Dir)\<rparr>) = Inr w'"
      by simp
    from Cons.IH [OF this] show ?thesis by auto
  next
    case (Some n)
    show ?thesis
    proof (cases n)
      case Dir
      with Some Cons.prems have "mkdir_parents (p @ [c]) cs w = Inr w'"
        by simp
      from Cons.IH [OF this] Some Dir show ?thesis by auto
    next
      case (File img)
      with Some Cons.prems show ?thesis by simp
    qed
  qed
qed


lemma mkdir_parents_total:
  "\<forall>q \<in> ancestors p cs. \<forall>img. nodes w q \<noteq> Some (File img) \<Longrightarrow>
     \<exists>w'. mkdir_parents p cs w = Inr w'"
proof (induction cs arbitrary: p w)
  case Nil
  then show ?case by simp
next
  case (Cons c cs)
  have a: "\<forall>q \<in> ancestors (p @ [c]) cs. \<forall>img. nodes w q \<noteq> Some (File img)"
    using Cons.prems by simp
  show ?case
  proof (cases "nodes w (p @ [c])")
    case None
    have "\<forall>q \<in> ancestors (p @ [c]) cs. \<forall>img.
            nodes (w\<lparr>nodes := (nodes w)(p @ [c] \<mapsto> Dir)\<rparr>) q \<noteq> Some (File img)"
      using a by simp
    from Cons.IH [OF this] None show ?thesis by simp
  next
    case (Some n)
    with Cons.prems have "n = Dir"
      by (cases n) auto
    with Some Cons.IH [OF a] show ?thesis by simp
  qed
qed

lemma dirs_of_tree:
  "ancestors [] (ASSETS_DIR e) \<union> ancestors [] (SCREENSHOTS_DIR e) =
     ancestors [] (ROOT e) \<union>
     {ROOT e @ [''myayai-extension''], ROOT e @ [''myayai-extension'', ''assets''],
      ROOT e @ [''myayai-extension'', ''assets'', ''icons''],
      ROOT e @ [''store-assets''], ROOT e @ [''store-assets'', ''screenshots'']}"
  by (auto simp: ASSETS_DIR_eq SCREENSHOTS_DIR_eq ancestors_append)

lemma ensure_dirs_Inr:
  assumes "ensure_dirs e w = Inr w0"
  shows "nodes w0 = (\<lambda>q. if q \<in> ancestors [] (ASSETS_DIR e) \<union> ancestors [] (SCREENSHOTS_DIR e)
                       then Some Dir else nodes w q)"
    and "saved w0 = saved w" and "stdout w0 = stdout w"
proof -
  from assms obtain w1 where a: "mkdir_parents [] (ASSETS_DIR e) w = Inr w1"
    and b: "mkdir_parents [] (SCREENSHOTS_DIR e) w1 = Inr w0"
    by (auto simp: ensure_dirs_def mkdir_def bindE_Inr_iff)
  from mkdir_parents_Inr [OF a] mkdir_parents_Inr [OF b]
  show "nodes w0 = (\<lambda>q. if q \<in> ancestors [] (ASSETS_DIR e) \<union> ancestors [] (SCREENSHOTS_DIR e)
                       then Some Dir else nodes w q)"
    and "saved w0 = saved w" and "stdout w0 = stdout w"
    by auto
qed


lemma ensure_dirs_total:
  assumes "\<forall>q \<in> ancestors [] (ASSETS_DIR e) \<union> ancestors [] (SCREENSHOTS_DIR e).
             \<forall>img. nodes w q \<noteq> Some (File img)"
  shows "\<exists>w0. ensure_dirs e w = Inr w0"
proof -
  from assms obtain w1 where a: "mkdir_parents [] (ASSETS_DIR e) w = Inr w1"
    using mkdir_parents_total [of "[]" "ASSETS_DIR e" w] by auto
  from assms mkdir_parents_Inr [OF a]
  have "\<forall>q \<in> ancestors [] (SCREENSHOTS_DIR e). \<forall>img. nodes w1 q \<noteq> Some (File img)"
    by auto
  from mkdir_parents_total [OF this] a show ?thesis
    by (simp add: ensure_dirs_def mkdir_def)
qed

lemma outputs_not_dirs_of_tree:
  assumes "p \<in> set (outputs e)"
  shows "p \<notin> ancestors [] (ASSETS_DIR e) \<union> ancestors [] (SCREENSHOTS_DIR e)"
proof -
  from assms have "length (ROOT e) < length p"
    by (auto simp: outputs_def)
  then have "p \<notin> ancestors [] (ROOT e)"
    using ancestors_length [of p "[]" "ROOT e"] by auto
  with assms show ?thesis
    unfolding dirs_of_tree by (auto simp: outputs_def)
qed

lemma working_dirs:
  assumes "ensure_dirs e w = Inr w0"
  shows "ROOT e @ [''myayai-extension'', ''assets'', ''icons''] \<in> dirs w0"
    and "ROOT e @ [''store-assets''] \<in> dirs w0"
    and "ROOT e @ [''store-assets'', ''screenshots''] \<in> dirs w0"
    and "ancestors [] (ASSETS_DIR e) \<union> ancestors [] (SCREENSHOTS_DIR e) \<subseteq> dirs w0"
  unfolding dirs_def ensure_dirs_Inr(1) [OF assms] dirs_of_tree by auto

subsection \<open>One save\<close>

lemma save_dirs:
  assumes "save e img out w = Inr w'"
  shows "dirs w' = dirs w" and "out \<notin> dirs w" and "save_error e img out = None"
  using assms by (auto simp: save_Inr_iff dirs_def)

lemma save_run:
  assumes "save_error e img out = None" and "out \<notin> dirs w" and "butlast out \<in> dirs w"
    and "out \<noteq> []"
  shows "\<exists>w'. save e img out w = Inr w'"
  using assms by (simp add: save_Inr_iff dirs_def is_dir_def)

lemma encodesI: "m = Inr img \<Longrightarrow> save e img out w = Inr w' \<Longrightarrow> encodes e m out"
  by (auto simp: encodes_def save_Inr_iff)

subsection \<open>A whole run\<close>

lemma main_steps:
  assumes "main e w = Inr w'"
  obtains w0 w1 w2 w3 w4 w5 w6 w7 w8 w9 w10 o1 o2 o3 o4 o5 o6 o7 o8 o9 o10 where
    "ensure_dirs e w = Inr w0"
    "create_icon e 16 ''icon16.png'' w0 = Inr (o1, w1)"
    "create_icon e 32 ''icon32.png'' w1 = Inr (o2, w2)"
    "create_icon e 48 ''icon48.png'' w2 = Inr (o3, w3)"
    "create_icon e 128 ''icon128.png'' w3 = Inr (o4, w4)"
    "create_screenshot e 1 (''One'' @ [CHR 0xE2, CHR 0x80, CHR 0x91] @ ''click Optimization'')
              ''Upgrade prompts while preserving intent'' w4 = Inr (o5, w5)"
    "create_screenshot e 2 ''Dashboard & Insights'' ''Track improvements and time saved'' w5
       = Inr (o6, w6)"
    "create_screenshot e 3 ''Works Across Platforms''
              ''ChatGPT, Claude, Gemini, Perplexity, Copilot, Poe'' w6 = Inr (o7, w7)"
    "create_screenshot e 4 ''Achievements'' ''Build better prompting habits over time'' w7
       = Inr (o8, w8)"
    "create_screenshot e 5 (''Before '' @ [CHR 0xE2, CHR 0x86, CHR 0x92] @ '' After'')
              ''See improvements called out clearly'' w8 = Inr (o9, w9)"
    "create_promo e 440 280 ''promo-440x280.png'' ''MyAyAI'' ''AI Prompt Optimizer'' w9
       = Inr (o10, w10)"
    "print ''Generated icons, screenshots, and promo placeholders.'' w10 = Inr w'"
  using assms unfolding main_def bindE_Inr_iff split_paired_Ex case_prod_conv
  by (elim exE conjE) (rule that; assumption)

text \<open>What a run that returns has done, step by step.\<close>

lemma main_result:
  assumes "main e w = Inr w'"
  obtains w0 i1 i2 i3 i4 s1 s2 s3 s4 s5 pr where
    "ensure_dirs e w = Inr w0"
    "draw_icon e 16 = Inr i1" "draw_icon e 32 = Inr i2"
    "draw_icon e 48 = Inr i3" "draw_icon e 128 = Inr i4"
    "draw_screenshot e (''One'' @ [CHR 0xE2, CHR 0x80, CHR 0x91] @ ''click Optimization'')
              ''Upgrade prompts while preserving intent'' = Inr s1"
    "draw_screenshot e ''Dashboard & Insights'' ''Track improvements and time saved'' = Inr s2"
    "draw_screenshot e ''Works Across Platforms''
              ''ChatGPT, Claude, Gemini, Perplexity, Copilot, Poe'' = Inr s3"
    "draw_screenshot e ''Achievements'' ''Build better prompting habits over time'' = Inr s4"
    "draw_screenshot e (''Before '' @ [CHR 0xE2, CHR 0x86, CHR 0x92] @ '' After'')
              ''See improvements called out clearly'' = Inr s5"
    "draw_promo e 440 280 ''MyAyAI'' ''AI Prompt Optimizer'' = Inr pr"
    "nodes w' = (nodes w0)
       (ROOT e @ [''myayai-extension'', ''assets'', ''icons'', ''icon16.png''] \<mapsto> File i1,
        ROOT e @ [''myayai-extension'', ''assets'', ''icons'', ''icon32.png''] \<mapsto> File i2,
        ROOT e @ [''myayai-extension'', ''assets'', ''icons'', ''icon48.png''] \<mapsto> File i3,
        ROOT e @ [''myayai-extension'', ''assets'', ''icons'', ''icon128.png''] \<mapsto> File i4,
        ROOT e @ [''store-assets'', ''screenshots'', ''screenshot-1.png''] \<mapsto> File s1,
        ROOT e @ [''store-assets'', ''screenshots'', ''screenshot-2.png''] \<mapsto> File s2,
        ROOT e @ [''store-assets'', ''screenshots'', ''screenshot-3.png''] \<mapsto> File s3,
        ROOT e @ [''store-assets'', ''screenshots'', ''screenshot-4.png''] \<mapsto> File s4,
        ROOT e @ [''store-assets'', ''screenshots'', ''screenshot-5.png''] \<mapsto> File s5,
        ROOT e @ [''store-assets'', ''promo-440x280.png''] \<mapsto> File pr)"
    "saved w' = saved w0 @ outputs e"
    "stdout w' = stdout w0 @ [''Generated icons, screenshots, and promo placeholders.'']"
    "renders e" "set (outputs e) \<inter> dirs w0 = {}" "dirs w' = dirs w0"
proof -
  from assms obtain w0 w1 w2 w3 w4 w5 w6 w7 w8 w9 w10 o1 o2 o3 o4 o5 o6 o7 o8 o9 o10 where
    st: "ensure_dirs e w = Inr w0"
    "create_icon e 16 ''icon16.png'' w0 = Inr (o1, w1)"
    "create_icon e 32 ''icon32.png'' w1 = Inr (o2, w2)"
    "create_icon e 48 ''icon48.png'' w2 = Inr (o3, w3)"
    "create_icon e 128 ''icon128.png'' w3 = Inr (o4, w4)"
    "create_screenshot e 1 (''One'' @ [CHR 0xE2, CHR 0x80, CHR 0x91] @ ''click Optimization'')
              ''Upgrade prompts while preserving intent'' w4 = Inr (o5, w5)"
    "create_screenshot e 2 ''Dashboard & Insights'' ''Track improvements and time saved'' w5
       = Inr (o6, w6)"
    "create_screenshot e 3 ''Works Across Platforms''
              ''ChatGPT, Claude, Gemini, Perplexity, Copilot, Poe'' w6 = Inr (o7, w7)"
    "create_screenshot e 4 ''Achievements'' ''Build better prompting habits over time'' w7
       = Inr (o8, w8)"
    "create_screenshot e 5 (''Before '' @ [CHR 0xE2, CHR 0x86, CHR 0x92] @ '' After'')
              ''See improvements called out clearly'' w8 = Inr (o9, w9)"
    "create_promo e 440 280 ''promo-440x280.png'' ''MyAyAI'' ''AI Prompt Optimizer'' w9
       = Inr (o10, w10)"
    "print ''Generated icons, screenshots, and promo placeholders.'' w10 = Inr w'"
    by (rule main_steps)
  from st(2) obtain i1 where i1: "draw_icon e 16 = Inr i1"
    "o1 = path_div (ASSETS_DIR e) ''icon16.png''" "save e i1 o1 w0 = Inr w1"
    by (rule create_icon_effect)
  from st(3) obtain i2 where i2: "draw_icon e 32 = Inr i2"
    "o2 = path_div (ASSETS_DIR e) ''icon32.png''" "save e i2 o2 w1 = Inr w2"
    by (rule create_icon_effect)
  from st(4) obtain i3 where i3: "draw_icon e 48 = Inr i3"
    "o3 = path_div (ASSETS_DIR e) ''icon48.png''" "save e i3 o3 w2 = Inr w3"
    by (rule create_icon_effect)
  from st(5) obtain i4 where i4: "draw_icon e 128 = Inr i4"
    "o4 = path_div (ASSETS_DIR e) ''icon128.png''" "save e i4 o4 w3 = Inr w4"
    by (rule create_icon_effect)
  from st(6) obtain s1 where s1: "draw_screenshot e
      (''One'' @ [CHR 0xE2, CHR 0x80, CHR 0x91] @ ''click Optimization'')
      ''Upgrade prompts while preserving intent'' = Inr s1"
    "o5 = path_div (SCREENSHOTS_DIR e) (''screenshot-'' @ py_str 1 @ ''.png'')"
    "save e s1 o5 w4 = Inr w5"
    by (rule create_screenshot_effect)
  from st(7) obtain s2 where s2: "draw_screenshot e ''Dashboard & Insights''
      ''Track improvements and time saved'' = Inr s2"
    "o6 = path_div (SCREENSHOTS_DIR e) (''screenshot-'' @ py_str 2 @ ''.png'')"
    "save e s2 o6 w5 = Inr w6"
    by (rule create_screenshot_effect)
  from st(8) obtain s3 where s3: "draw_screenshot e ''Works Across Platforms''
      ''ChatGPT, Claude, Gemini, Perplexity, Copilot, Poe'' = Inr s3"
    "o7 = path_div (SCREENSHOTS_DIR e) (''screenshot-'' @ py_str 3 @ ''.png'')"
    "save e s3 o7 w6 = Inr w7"
    by (rule create_screenshot_effect)
  from st(9) obtain s4 where s4: "draw_screenshot e ''Achievements''
      ''Build better prompting habits over time'' = Inr s4"
    "o8 = path_div (SCREENSHOTS_DIR e) (''screenshot-'' @ py_str 4 @ ''.png'')"
    "save e s4 o8 w7 = Inr w8"
    by (rule create_screenshot_effect)
  from st(10) obtain s5 where s5: "draw_screenshot e
      (''Before '' @ [CHR 0xE2, CHR 0x86, CHR 0x92] @ '' After'')
      ''See improvements called out clearly'' = Inr s5"
    "o9 = path_div (SCREENSHOTS_DIR e) (''screenshot-'' @ py_str 5 @ ''.png'')"
    "save e s5 o9 w8 = Inr w9"
    by (rule create_screenshot_effect)
  from st(11) obtain pr where pr: "draw_promo e 440 280 ''MyAyAI'' ''AI Prompt Optimizer'' = Inr pr"
    "o10 = path_div (STORE_DIR e) ''promo-440x280.png''" "save e pr o10 w9 = Inr w10"
    by (rule create_promo_effect)
  note sv = save_effect [OF i1(3)] save_effect [OF i2(3)] save_effect [OF i3(3)]
    save_effect [OF i4(3)] save_effect [OF s1(3)] save_effect [OF s2(3)] save_effect [OF s3(3)]
    save_effect [OF s4(3)] save_effect [OF s5(3)] save_effect [OF pr(3)]
  note os = i1(2) i2(2) i3(2) i4(2) s1(2) s2(2) s3(2) s4(2) s5(2) pr(2)
  from st(12) have fin: "nodes w' = nodes w10" "saved w' = saved w10"
    "stdout w' = stdout w10 @ [''Generated icons, screenshots, and promo placeholders.'']"
    by (auto simp: print_def)
  have n: "nodes w' = (nodes w0)
       (ROOT e @ [''myayai-extension'', ''assets'', ''icons'', ''icon16.png''] \<mapsto> File i1,
        ROOT e @ [''myayai-extension'', ''assets'', ''icons'', ''icon32.png''] \<mapsto> File i2,
        ROOT e @ [''myayai-extension'', ''assets'', ''icons'', ''icon48.png''] \<mapsto> File i3,
        ROOT e @ [''myayai-extension'', ''assets'', ''icons'', ''icon128.png''] \<mapsto> File i4,
        ROOT e @ [''store-assets'', ''screenshots'', ''screenshot-1.png''] \<mapsto> File s1,
        ROOT e @ [''store-assets'', ''screenshots'', ''screenshot-2.png''] \<mapsto> File s2,
        ROOT e @ [''store-assets'', ''screenshots'', ''screenshot-3.png''] \<mapsto> File s3,
        ROOT e @ [''store-assets'', ''screenshots'', ''screenshot-4.png''] \<mapsto> File s4,
        ROOT e @ [''store-assets'', ''screenshots'', ''screenshot-5.png''] \<mapsto> File s5,
        ROOT e @ [''store-assets'', ''promo-440x280.png''] \<mapsto> File pr)"
    unfolding fin sv os icon_paths shot_paths promo_path ..
  have s: "saved w' = saved w0 @ outputs e"
    unfolding fin sv os icon_paths shot_paths promo_path outputs_def by simp
  have p: "stdout w' = stdout w0 @ [''Generated icons, screenshots, and promo placeholders.'']"
    unfolding fin sv ..
  note sd = save_dirs [OF i1(3)] save_dirs [OF i2(3)] save_dirs [OF i3(3)]
    save_dirs [OF i4(3)] save_dirs [OF s1(3)] save_dirs [OF s2(3)] save_dirs [OF s3(3)]
    save_dirs [OF s4(3)] save_dirs [OF s5(3)] save_dirs [OF pr(3)]
  have r: "renders e"
    unfolding renders_def
    using encodesI [OF i1(1) i1(3)] encodesI [OF i2(1) i2(3)] encodesI [OF i3(1) i3(3)]
      encodesI [OF i4(1) i4(3)] encodesI [OF s1(1) s1(3)] encodesI [OF s2(1) s2(3)]
      encodesI [OF s3(1) s3(3)] encodesI [OF s4(1) s4(3)] encodesI [OF s5(1) s5(3)]
      encodesI [OF pr(1) pr(3)]
    unfolding os icon_paths shot_paths promo_path by blast
  have d: "dirs w' = dirs w0"
    using fin(1) sd by (simp add: dirs_def)
  have "o1 \<notin> dirs w0" "o2 \<notin> dirs w0" "o3 \<notin> dirs w0" "o4 \<notin> dirs w0" "o5 \<notin> dirs w0"
    "o6 \<notin> dirs w0" "o7 \<notin> dirs w0" "o8 \<notin> dirs w0" "o9 \<notin> dirs w0" "o10 \<notin> dirs w0"
    using sd by simp_all
  then have q: "set (outputs e) \<inter> dirs w0 = {}"
    unfolding os icon_paths shot_paths promo_path outputs_def by simp
  from st(1) i1(1) i2(1) i3(1) i4(1) s1(1) s2(1) s3(1) s4(1) s5(1) pr(1) n s p r q d
  show thesis
    by (rule that)
qed

lemma save_next:
  assumes "encodes e m out" and "out \<notin> dirs v0" and "butlast out \<in> dirs v0"
    and "dirs w = dirs v0" and "out \<noteq> []"
  shows "\<exists>img w'. m = Inr img \<and> save e img out w = Inr w' \<and> dirs w' = dirs v0"
proof -
  from assms(1) obtain img where m: "m = Inr img" and s: "save_error e img out = None"
    by (auto simp: encodes_def)
  from assms(2-4) have "out \<notin> dirs w" "butlast out \<in> dirs w"
    by simp_all
  from save_run [OF s this assms(5)] obtain w' where w': "save e img out w = Inr w'"
    by blast
  from m w' save_dirs(1) [OF w'] assms(4) show ?thesis by simp
qed

text \<open>A run returns as soon as the images render, the directories can be made and no
  output path is a directory.\<close>

lemma main_run:
  assumes r: "renders e" and d: "ensure_dirs e v = Inr v0"
    and q: "set (outputs e) \<inter> dirs v0 = {}"
  shows "\<exists>v'. main e v = Inr v'"
proof -
  note wd = working_dirs [OF d]
  from q have nd:
    "ROOT e @ [''myayai-extension'', ''assets'', ''icons'', ''icon16.png''] \<notin> dirs v0"
    "ROOT e @ [''myayai-extension'', ''assets'', ''icons'', ''icon32.png''] \<notin> dirs v0"
    "ROOT e @ [''myayai-extension'', ''assets'', ''icons'', ''icon48.png''] \<notin> dirs v0"
    "ROOT e @ [''myayai-extension'', ''assets'', ''icons'', ''icon128.png''] \<notin> dirs v0"
    "ROOT e @ [''store-assets'', ''screenshots'', ''screenshot-1.png''] \<notin> dirs v0"
    "ROOT e @ [''store-assets'', ''screenshots'', ''screenshot-2.png''] \<notin> dirs v0"
    "ROOT e @ [''store-assets'', ''screenshots'', ''screenshot-3.png''] \<notin> dirs v0"
    "ROOT e @ [''store-assets'', ''screenshots'', ''screenshot-4.png''] \<notin> dirs v0"
    "ROOT e @ [''store-assets'', ''screenshots'', ''screenshot-5.png''] \<notin> dirs v0"
    "ROOT e @ [''store-assets'', ''promo-440x280.png''] \<notin> dirs v0"
    by (auto simp: outputs_def)
  have bl:
    "butlast (ROOT e @ [''myayai-extension'', ''assets'', ''icons'', ''icon16.png'']) \<in> dirs v0"
    "butlast (ROOT e @ [''myayai-extension'', ''assets'', ''icons'', ''icon32.png'']) \<in> dirs v0"
    "butlast (ROOT e @ [''myayai-extension'', ''assets'', ''icons'', ''icon48.png'']) \<in> dirs v0"
    "butlast (ROOT e @ [''myayai-extension'', ''assets'', ''icons'', ''icon128.png'']) \<in> dirs v0"
    "butlast (ROOT e @ [''store-assets'', ''screenshots'', ''screenshot-1.png'']) \<in> dirs v0"
    "butlast (ROOT e @ [''store-assets'', ''screenshots'', ''screenshot-2.png'']) \<in> dirs v0"
    "butlast (ROOT e @ [''store-assets'', ''screenshots'', ''screenshot-3.png'']) \<in> dirs v0"
    "butlast (ROOT e @ [''store-assets'', ''screenshots'', ''screenshot-4.png'']) \<in> dirs v0"
    "butlast (ROOT e @ [''store-assets'', ''screenshots'', ''screenshot-5.png'']) \<in> dirs v0"
    "butlast (ROOT e @ [''store-assets'', ''promo-440x280.png'']) \<in> dirs v0"
    using wd(1-3) by (simp_all add: butlast_append)
  note rs = r [unfolded renders_def]
  note e1 = rs [THEN conjunct1]
  note e2 = rs [THEN conjunct2, THEN conjunct1]
  note e3 = rs [THEN conjunct2, THEN conjunct2, THEN conjunct1]
  note e4 = rs [THEN conjunct2, THEN conjunct2, THEN conjunct2, THEN conjunct1]
  note e5 = rs [THEN conjunct2, THEN conjunct2, THEN conjunct2, THEN conjunct2, THEN conjunct1]
  note e6 = rs [THEN conjunct2, THEN conjunct2, THEN conjunct2, THEN conjunct2, THEN conjunct2,
    THEN conjunct1]
  note e7 = rs [THEN conjunct2, THEN conjunct2, THEN conjunct2, THEN conjunct2, THEN conjunct2,
    THEN conjunct2, THEN conjunct1]
  note e8 = rs [THEN conjunct2, THEN conjunct2, THEN conjunct2, THEN conjunct2, THEN conjunct2,
    THEN conjunct2, THEN conjunct2, THEN conjunct1]
  note e9 = rs [THEN conjunct2, THEN conjunct2, THEN conjunct2, THEN conjunct2, THEN conjunct2,
    THEN conjunct2, THEN conjunct2, THEN conjunct2, THEN conjunct1]
  note e10 = rs [THEN conjunct2, THEN conjunct2, THEN conjunct2, THEN conjunct2, THEN conjunct2,
    THEN conjunct2, THEN conjunct2, THEN conjunct2, THEN conjunct2]
  from save_next [OF e1 nd(1) bl(1) refl] obtain i1 v1 where 1: "draw_icon e 16 = Inr i1"
    "save e i1 (ROOT e @ [''myayai-extension'', ''assets'', ''icons'', ''icon16.png'']) v0 = Inr v1"
    "dirs v1 = dirs v0"
    by auto
  from save_next [OF e2 nd(2) bl(2) 1(3)] obtain i2 v2 where 2: "draw_icon e 32 = Inr i2"
    "save e i2 (ROOT e @ [''myayai-extension'', ''assets'', ''icons'', ''icon32.png'']) v1 = Inr v2"
    "dirs v2 = dirs v0"
    by auto
  from save_next [OF e3 nd(3) bl(3) 2(3)] obtain i3 v3 where 3: "draw_icon e 48 = Inr i3"
    "save e i3 (ROOT e @ [''myayai-extension'', ''assets'', ''icons'', ''icon48.png'']) v2 = Inr v3"
    "dirs v3 = dirs v0"
    by auto
  from save_next [OF e4 nd(4) bl(4) 3(3)] obtain i4 v4 where 4: "draw_icon e 128 = Inr i4"
    "save e i4 (ROOT e @ [''myayai-extension'', ''assets'', ''icons'', ''icon128.png'']) v3 = Inr v4"
    "dirs v4 = dirs v0"
    by auto
  from save_next [OF e5 nd(5) bl(5) 4(3)] obtain s1 v5 where 5: "draw_screenshot e
      (''One'' @ [CHR 0xE2, CHR 0x80, CHR 0x91] @ ''click Optimization'')
      ''Upgrade prompts while preserving intent'' = Inr s1"
    "save e s1 (ROOT e @ [''store-assets'', ''screenshots'', ''screenshot-1.png'']) v4 = Inr v5"
    "dirs v5 = dirs v0"
    by auto
  from save_next [OF e6 nd(6) bl(6) 5(3)] obtain s2 v6 where 6: "draw_screenshot e ''Dashboard & Insights''
      ''Track improvements and time saved'' = Inr s2"
    "save e s2 (ROOT e @ [''store-assets'', ''screenshots'', ''screenshot-2.png'']) v5 = Inr v6"
    "dirs v6 = dirs v0"
    by auto
  from save_next [OF e7 nd(7) bl(7) 6(3)] obtain s3 v7 where 7: "draw_screenshot e ''Works Across Platforms''
      ''ChatGPT, Claude, Gemini, Perplexity, Copilot, Poe'' = Inr s3"
    "save e s3 (ROOT e @ [''store-assets'', ''screenshots'', ''screenshot-3.png'']) v6 = Inr v7"
    "dirs v7 = dirs v0"
    by auto
  from save_next [OF e8 nd(8) bl(8) 7(3)] obtain s4 v8 where 8: "draw_screenshot e ''Achievements''
      ''Build better prompting habits over time'' = Inr s4"
    "save e s4 (ROOT e @ [''store-assets'', ''screenshots'', ''screenshot-4.png'']) v7 = Inr v8"
    "dirs v8 = dirs v0"
    by auto
  from save_next [OF e9 nd(9) bl(9) 8(3)] obtain s5 v9 where 9: "draw_screenshot e
      (''Before '' @ [CHR 0xE2, CHR 0x86, CHR 0x92] @ '' After'')
      ''See improvements called out clearly'' = Inr s5"
    "save e s5 (ROOT e @ [''store-assets'', ''screenshots'', ''screenshot-5.png'']) v8 = Inr v9"
    "dirs v9 = dirs v0"
    by auto
  from save_next [OF e10 nd(10) bl(10) 9(3)] obtain pr v10 where 10:
    "draw_promo e 440 280 ''MyAyAI'' ''AI Prompt Optimizer'' = Inr pr"
    "save e pr (ROOT e @ [''store-assets'', ''promo-440x280.png'']) v9 = Inr v10"
    "dirs v10 = dirs v0"
    by auto
  have c:
    "create_icon e 16 ''icon16.png'' v0
       = Inr (ROOT e @ [''myayai-extension'', ''assets'', ''icons'', ''icon16.png''], v1)"
    "create_icon e 32 ''icon32.png'' v1
       = Inr (ROOT e @ [''myayai-extension'', ''assets'', ''icons'', ''icon32.png''], v2)"
    "create_icon e 48 ''icon48.png'' v2
       = Inr (ROOT e @ [''myayai-extension'', ''assets'', ''icons'', ''icon48.png''], v3)"
    "create_icon e 128 ''icon128.png'' v3
       = Inr (ROOT e @ [''myayai-extension'', ''assets'', ''icons'', ''icon128.png''], v4)"
    "create_screenshot e 1 (''One'' @ [CHR 0xE2, CHR 0x80, CHR 0x91] @ ''click Optimization'')
       ''Upgrade prompts while preserving intent'' v4
       = Inr (ROOT e @ [''store-assets'', ''screenshots'', ''screenshot-1.png''], v5)"
    "create_screenshot e 2 ''Dashboard & Insights'' ''Track improvements and time saved'' v5
       = Inr (ROOT e @ [''store-assets'', ''screenshots'', ''screenshot-2.png''], v6)"
    "create_screenshot e 3 ''Works Across Platforms''
       ''ChatGPT, Claude, Gemini, Perplexity, Copilot, Poe'' v6
       = Inr (ROOT e @ [''store-assets'', ''screenshots'', ''screenshot-3.png''], v7)"
    "create_screenshot e 4 ''Achievements'' ''Build better prompting habits over time'' v7
       = Inr (ROOT e @ [''store-assets'', ''screenshots'', ''screenshot-4.png''], v8)"
    "create_screenshot e 5 (''Before '' @ [CHR 0xE2, CHR 0x86, CHR 0x92] @ '' After'')
       ''See improvements called out clearly'' v8
       = Inr (ROOT e @ [''store-assets'', ''screenshots'', ''screenshot-5.png''], v9)"
    "create_promo e 440 280 ''promo-440x280.png'' ''MyAyAI'' ''AI Prompt Optimizer'' v9
       = Inr (ROOT e @ [''store-assets'', ''promo-440x280.png''], v10)"
    unfolding create_icon_Inr_iff create_screenshot_Inr_iff create_promo_Inr_iff
      icon_paths shot_paths promo_path
    using 1 2 3 4 5 6 7 8 9 10 by blast+
  show ?thesis
    unfolding main_def d bindE_Inr c case_prod_conv print_def by blast
qed

lemma permissive_renders:
  assumes "permissive e"
  shows "renders e"
proof -
  have s: "save_error e img out = None" for img out
    using assms by (simp add: permissive_def)
  have i: "encodes e (draw_icon e sz) out" if "0 \<le> sz" for sz out
    using draw_icon_total [OF assms that] s by (auto simp: encodes_def)
  have c: "encodes e (draw_screenshot e title subtitle) out" for title subtitle out
    using draw_screenshot_total [OF assms, of title subtitle] s by (auto simp: encodes_def)
  have p: "encodes e (draw_promo e 440 280 title subtitle) out" for title subtitle out
    using draw_promo_total [OF assms, of 440 280 title subtitle] s by (auto simp: encodes_def)
  show ?thesis
    unfolding renders_def by (intro conjI i c p) simp_all
qed

lemma main_on_empty_disk:
  assumes "permissive e" and "nodes w = Map.empty"
  shows "\<exists>w'. main e w = Inr w'"
proof -
  from assms(2) obtain w0 where d: "ensure_dirs e w = Inr w0"
    using ensure_dirs_total [of e w] by auto
  have "dirs w0 = ancestors [] (ASSETS_DIR e) \<union> ancestors [] (SCREENSHOTS_DIR e)"
    unfolding dirs_def ensure_dirs_Inr(1) [OF d] assms(2) by auto
  with outputs_not_dirs_of_tree [of _ e] have "set (outputs e) \<inter> dirs w0 = {}"
    by blast
  from main_run [OF permissive_renders [OF assms(1)] d this] show ?thesis .
qed

lemma linux_run: "\<exists>w'. main linux_env empty_disk = Inr w'"
  by (rule main_on_empty_disk [OF permissive_linux_env]) (simp add: empty_disk_def)

text \<open>The files a run leaves at its ten output paths.\<close>

lemma main_files:
  assumes "main e w = Inr w'"
  obtains i1 i2 i3 i4 s1 s2 s3 s4 s5 pr where
    "draw_icon e 16 = Inr i1" "draw_icon e 32 = Inr i2"
    "draw_icon e 48 = Inr i3" "draw_icon e 128 = Inr i4"
    "draw_screenshot e (''One'' @ [CHR 0xE2, CHR 0x80, CHR 0x91] @ ''click Optimization'')
              ''Upgrade prompts while preserving intent'' = Inr s1"
    "draw_screenshot e ''Dashboard & Insights'' ''Track improvements and time saved'' = Inr s2"
    "draw_screenshot e ''Works Across Platforms''
              ''ChatGPT, Claude, Gemini, Perplexity, Copilot, Poe'' = Inr s3"
    "draw_screenshot e ''Achievements'' ''Build better prompting habits over time'' = Inr s4"
    "draw_screenshot e (''Before '' @ [CHR 0xE2, CHR 0x86, CHR 0x92] @ '' After'')
              ''See improvements called out clearly'' = Inr s5"
    "draw_promo e 440 280 ''MyAyAI'' ''AI Prompt Optimizer'' = Inr pr"
    "nodes w' (ROOT e @ [''myayai-extension'', ''assets'', ''icons'', ''icon16.png'']) = Some (File i1)"
    "nodes w' (ROOT e @ [''myayai-extension'', ''assets'', ''icons'', ''icon32.png'']) = Some (File i2)"
    "nodes w' (ROOT e @ [''myayai-extension'', ''assets'', ''icons'', ''icon48.png'']) = Some (File i3)"
    "nodes w' (ROOT e @ [''myayai-extension'', ''assets'', ''icons'', ''icon128.png'']) = Some (File i4)"
    "nodes w' (ROOT e @ [''store-assets'', ''screenshots'', ''screenshot-1.png'']) = Some (File s1)"
    "nodes w' (ROOT e @ [''store-assets'', ''screenshots'', ''screenshot-2.png'']) = Some (File s2)"
    "nodes w' (ROOT e @ [''store-assets'', ''screenshots'', ''screenshot-3.png'']) = Some (File s3)"
    "nodes w' (ROOT e @ [''store-assets'', ''screenshots'', ''screenshot-4.png'']) = Some (File s4)"
    "nodes w' (ROOT e @ [''store-assets'', ''screenshots'', ''screenshot-5.png'']) = Some (File s5)"
    "nodes w' (ROOT e @ [''store-assets'', ''promo-440x280.png'']) = Some (File pr)"
proof (rule main_result [OF assms])
  fix w0 i1 i2 i3 i4 s1 s2 s3 s4 s5 pr
  assume r: "draw_icon e 16 = Inr i1" "draw_icon e 32 = Inr i2"
    "draw_icon e 48 = Inr i3" "draw_icon e 128 = Inr i4"
    "draw_screenshot e (''One'' @ [CHR 0xE2, CHR 0x80, CHR 0x91] @ ''click Optimization'')
              ''Upgrade prompts while preserving intent'' = Inr s1"
    "draw_screenshot e ''Dashboard & Insights'' ''Track improvements and time saved'' = Inr s2"
    "draw_screenshot e ''Works Across Platforms''
              ''ChatGPT, Claude, Gemini, Perplexity, Copilot, Poe'' = Inr s3"
    "draw_screenshot e ''Achievements'' ''Build better prompting habits over time'' = Inr s4"
    "draw_screenshot e (''Before '' @ [CHR 0xE2, CHR 0x86, CHR 0x92] @ '' After'')
              ''See improvements called out clearly'' = Inr s5"
    "draw_promo e 440 280 ''MyAyAI'' ''AI Prompt Optimizer'' = Inr pr"
    and n: "nodes w' = (nodes w0)
       (ROOT e @ [''myayai-extension'', ''assets'', ''icons'', ''icon16.png''] \<mapsto> File i1,
        ROOT e @ [''myayai-extension'', ''assets'', ''icons'', ''icon32.png''] \<mapsto> File i2,
        ROOT e @ [''myayai-extension'', ''assets'', ''icons'', ''icon48.png''] \<mapsto> File i3,
        ROOT e @ [''myayai-extension'', ''assets'', ''icons'', ''icon128.png''] \<mapsto> File i4,
        ROOT e @ [''store-assets'', ''screenshots'', ''screenshot-1.png''] \<mapsto> File s1,
        ROOT e @ [''store-assets'', ''screenshots'', ''screenshot-2.png''] \<mapsto> File s2,
        ROOT e @ [''store-assets'', ''screenshots'', ''screenshot-3.png''] \<mapsto> File s3,
        ROOT e @ [''store-assets'', ''screenshots'', ''screenshot-4.png''] \<mapsto> File s4,
        ROOT e @ [''store-assets'', ''screenshots'', ''screenshot-5.png''] \<mapsto> File s5,
        ROOT e @ [''store-assets'', ''promo-440x280.png''] \<mapsto> File pr)"
  have
    "nodes w' (ROOT e @ [''myayai-extension'', ''assets'', ''icons'', ''icon16.png'']) = Some (File i1)"
    "nodes w' (ROOT e @ [''myayai-extension'', ''assets'', ''icons'', ''icon32.png'']) = Some (File i2)"
    "nodes w' (ROOT e @ [''myayai-extension'', ''assets'', ''icons'', ''icon48.png'']) = Some (File i3)"
    "nodes w' (ROOT e @ [''myayai-extension'', ''assets'', ''icons'', ''icon128.png'']) = Some (File i4)"
    "nodes w' (ROOT e @ [''store-assets'', ''screenshots'', ''screenshot-1.png'']) = Some (File s1)"
    "nodes w' (ROOT e @ [''store-assets'', ''screenshots'', ''screenshot-2.png'']) = Some (File s2)"
    "nodes w' (ROOT e @ [''store-assets'', ''screenshots'', ''screenshot-3.png'']) = Some (File s3)"
    "nodes w' (ROOT e @ [''store-assets'', ''screenshots'', ''screenshot-4.png'']) = Some (File s4)"
    "nodes w' (ROOT e @ [''store-assets'', ''screenshots'', ''screenshot-5.png'']) = Some (File s5)"
    "nodes w' (ROOT e @ [''store-assets'', ''promo-440x280.png'']) = Some (File pr)"
    unfolding n by simp_all
  with r show thesis by (rule that)
qed

text \<open>A run leaves alone every path that is neither an output nor a directory it makes.\<close>

lemma main_touches:
  assumes "main e w = Inr w'" and "ensure_dirs e w = Inr w0" and "q \<notin> set (outputs e)"
  shows "nodes w' q = nodes w0 q"
proof (rule main_result [OF assms(1)])
  fix v0 i1 i2 i3 i4 s1 s2 s3 s4 s5 pr
  assume d: "ensure_dirs e w = Inr v0"
    and n: "nodes w' = (nodes v0)
       (ROOT e @ [''myayai-extension'', ''assets'', ''icons'', ''icon16.png''] \<mapsto> File i1,
        ROOT e @ [''myayai-extension'', ''assets'', ''icons'', ''icon32.png''] \<mapsto> File i2,
        ROOT e @ [''myayai-extension'', ''assets'', ''icons'', ''icon48.png''] \<mapsto> File i3,
        ROOT e @ [''myayai-extension'', ''assets'', ''icons'', ''icon128.png''] \<mapsto> File i4,
        ROOT e @ [''store-assets'', ''screenshots'', ''screenshot-1.png''] \<mapsto> File s1,
        ROOT e @ [''store-assets'', ''screenshots'', ''screenshot-2.png''] \<mapsto> File s2,
        ROOT e @ [''store-assets'', ''screenshots'', ''screenshot-3.png''] \<mapsto> File s3,
        ROOT e @ [''store-assets'', ''screenshots'', ''screenshot-4.png''] \<mapsto> File s4,
        ROOT e @ [''store-assets'', ''screenshots'', ''screenshot-5.png''] \<mapsto> File s5,
        ROOT e @ [''store-assets'', ''promo-440x280.png''] \<mapsto> File pr)"
  from d assms(2) have "v0 = w0" by simp
  with n assms(3) show ?thesis
    by (simp add: outputs_def)
qed

lemma main_keeps:
  assumes "main e w = Inr w'" and "q \<notin> set (outputs e)"
    and "q \<notin> ancestors [] (ASSETS_DIR e) \<union> ancestors [] (SCREENSHOTS_DIR e)"
  shows "nodes w' q = nodes w q"
proof (rule main_result [OF assms(1)])
  fix w0
  assume d: "ensure_dirs e w = Inr w0"
  from main_touches [OF assms(1) d assms(2)] ensure_dirs_Inr(1) [OF d] assms(3)
  show ?thesis by simp
qed


lemma main_on_disk:
  assumes "permissive e"
    and "\<forall>q \<in> ancestors [] (ASSETS_DIR e) \<union> ancestors [] (SCREENSHOTS_DIR e).
           \<forall>img. nodes w q \<noteq> Some (File img)"
    and "set (outputs e) \<inter> dirs w = {}"
  shows "\<exists>w'. main e w = Inr w'"
proof -
  from ensure_dirs_total [OF assms(2)] obtain w0 where d: "ensure_dirs e w = Inr w0"
    by blast
  have "dirs w0 = dirs w \<union> (ancestors [] (ASSETS_DIR e) \<union> ancestors [] (SCREENSHOTS_DIR e))"
    unfolding dirs_def ensure_dirs_Inr(1) [OF d] by auto
  with outputs_not_dirs_of_tree [of _ e] assms(3) have "set (outputs e) \<inter> dirs w0 = {}"
    by blast
  from main_run [OF permissive_renders [OF assms(1)] d this] show ?thesis .
qed

section \<open>The driver's outputs\<close>

text \<open>
  C3. After a run of \<open>main\<close> that returns, the file at the promo tile's path is a
  440 by 280 image; and whenever \<open>create_screenshot\<close> returns, whatever its index, title
  and subtitle, the file at the path it returns is a 1280 by 800 image.
\<close>

theorem promo_and_screenshot_dimensions:
  "(main e w = Inr w' \<longrightarrow>
      (\<exists>img. nodes w' (path_div (STORE_DIR e) ''promo-440x280.png'') = Some (File img) \<and>
             im_width img = 440 \<and> im_height img = 280)) \<and>
   (create_screenshot e idx title subtitle v = Inr (out, v') \<longrightarrow>
      (\<exists>img. nodes v' out = Some (File img) \<and> im_width img = 1280 \<and> im_height img = 800))"
proof (intro conjI impI)
  assume "main e w = Inr w'"
  then obtain pr where "draw_promo e 440 280 ''MyAyAI'' ''AI Prompt Optimizer'' = Inr pr"
    and "nodes w' (ROOT e @ [''store-assets'', ''promo-440x280.png'']) = Some (File pr)"
    by (rule main_files)
  with draw_promo_frame [of e 440 280 "''MyAyAI''" "''AI Prompt Optimizer''" pr]
  show "\<exists>img. nodes w' (path_div (STORE_DIR e) ''promo-440x280.png'') = Some (File img) \<and>
             im_width img = 440 \<and> im_height img = 280"
    by (simp add: promo_path)
next
  assume "create_screenshot e idx title subtitle v = Inr (out, v')"
  then obtain img where d: "draw_screenshot e title subtitle = Inr img"
    and s: "save e img out v = Inr v'"
    by (rule create_screenshot_effect)
  from save_effect(1) [OF s] draw_screenshot_frame [OF d]
  show "\<exists>img. nodes v' out = Some (File img) \<and> im_width img = 1280 \<and> im_height img = 800"
    by simp
qed

theorem promo_and_screenshot_dimensions_witness:
  "\<exists>w' v out v'.
     main linux_env empty_disk = Inr w' \<and>
     create_screenshot linux_env 2 ''Dashboard & Insights''
       ''Track improvements and time saved'' v = Inr (out, v') \<and>
     (\<exists>img. nodes w' (path_div (STORE_DIR linux_env) ''promo-440x280.png'') = Some (File img) \<and>
            im_width img = 440 \<and> im_height img = 280) \<and>
     (\<exists>img. nodes v' out = Some (File img) \<and> im_width img = 1280 \<and> im_height img = 800)"
proof -
  from linux_run obtain w' where m: "main linux_env empty_disk = Inr w'"
    by blast
  then obtain v out v' where c: "create_screenshot linux_env 2 ''Dashboard & Insights''
       ''Track improvements and time saved'' v = Inr (out, v')"
    by (rule main_steps)
  from promo_and_screenshot_dimensions [of linux_env empty_disk w' 2 "''Dashboard & Insights''"
      "''Track improvements and time saved''" v out v'] m c
  show ?thesis by blast
qed

text \<open>
  C4, as amended. After a run of \<open>main\<close> that returns, the four icon files are files of
  the icons directory and the five screenshot files are files of the screenshots
  directory, and the run creates, replaces or removes no other entry of either directory:
  what was there before the run is still there after it.
\<close>

theorem main_outputs_exist:
  assumes "main e w = Inr w'"
  shows "(\<forall>name \<in> {''icon16.png'', ''icon32.png'', ''icon48.png'', ''icon128.png''}.
            \<exists>img. nodes w' (ASSETS_DIR e @ [name]) = Some (File img)) \<and>
         (\<forall>name \<in> {''screenshot-1.png'', ''screenshot-2.png'', ''screenshot-3.png'',
                     ''screenshot-4.png'', ''screenshot-5.png''}.
            \<exists>img. nodes w' (SCREENSHOTS_DIR e @ [name]) = Some (File img)) \<and>
         (\<forall>name. nodes w' (ASSETS_DIR e @ [name]) \<noteq> nodes w (ASSETS_DIR e @ [name]) \<longrightarrow>
            name \<in> {''icon16.png'', ''icon32.png'', ''icon48.png'', ''icon128.png''}) \<and>
         (\<forall>name. nodes w' (SCREENSHOTS_DIR e @ [name]) \<noteq> nodes w (SCREENSHOTS_DIR e @ [name]) \<longrightarrow>
            name \<in> {''screenshot-1.png'', ''screenshot-2.png'', ''screenshot-3.png'',
                     ''screenshot-4.png'', ''screenshot-5.png''})"
proof -
  from assms have a: "\<forall>name \<in> {''icon16.png'', ''icon32.png'', ''icon48.png'', ''icon128.png''}.
            \<exists>img. nodes w' (ASSETS_DIR e @ [name]) = Some (File img)"
    by (rule main_files) (simp add: ASSETS_DIR_eq)
  from assms have b: "\<forall>name \<in> {''screenshot-1.png'', ''screenshot-2.png'', ''screenshot-3.png'',
                     ''screenshot-4.png'', ''screenshot-5.png''}.
            \<exists>img. nodes w' (SCREENSHOTS_DIR e @ [name]) = Some (File img)"
    by (rule main_files) (simp add: SCREENSHOTS_DIR_eq)
  have nd: "q \<notin> ancestors [] (ASSETS_DIR e) \<union> ancestors [] (SCREENSHOTS_DIR e)"
    if "q = ROOT e @ [''myayai-extension'', ''assets'', ''icons'', name]
      \<or> q = ROOT e @ [''store-assets'', ''screenshots'', name]" for q name
  proof -
    from that have "length (ROOT e) < length q"
      by auto
    then have "q \<notin> ancestors [] (ROOT e)"
      using ancestors_length [of q "[]" "ROOT e"] by auto
    with that show ?thesis
      unfolding dirs_of_tree by auto
  qed
  from assms obtain w0 i1 i2 i3 i4 s1 s2 s3 s4 s5 pr where d: "ensure_dirs e w = Inr w0"
    and n: "nodes w' = (nodes w0)
       (ROOT e @ [''myayai-extension'', ''assets'', ''icons'', ''icon16.png''] \<mapsto> File i1,
        ROOT e @ [''myayai-extension'', ''assets'', ''icons'', ''icon32.png''] \<mapsto> File i2,
        ROOT e @ [''myayai-extension'', ''assets'', ''icons'', ''icon48.png''] \<mapsto> File i3,
        ROOT e @ [''myayai-extension'', ''assets'', ''icons'', ''icon128.png''] \<mapsto> File i4,
        ROOT e @ [''store-assets'', ''screenshots'', ''screenshot-1.png''] \<mapsto> File s1,
        ROOT e @ [''store-assets'', ''screenshots'', ''screenshot-2.png''] \<mapsto> File s2,
        ROOT e @ [''store-assets'', ''screenshots'', ''screenshot-3.png''] \<mapsto> File s3,
        ROOT e @ [''store-assets'', ''screenshots'', ''screenshot-4.png''] \<mapsto> File s4,
        ROOT e @ [''store-assets'', ''screenshots'', ''screenshot-5.png''] \<mapsto> File s5,
        ROOT e @ [''store-assets'', ''promo-440x280.png''] \<mapsto> File pr)"
    by (rule main_result) blast
  have u: "nodes w0 q = nodes w q"
    if "q = ROOT e @ [''myayai-extension'', ''assets'', ''icons'', name]
      \<or> q = ROOT e @ [''store-assets'', ''screenshots'', name]" for q name
    using nd [OF that] by (simp add: ensure_dirs_Inr(1) [OF d])
  have c: "name \<in> {''icon16.png'', ''icon32.png'', ''icon48.png'', ''icon128.png''}"
    if "nodes w' (ASSETS_DIR e @ [name]) \<noteq> nodes w (ASSETS_DIR e @ [name])" for name
    using that u [of "ROOT e @ [''myayai-extension'', ''assets'', ''icons'', name]" name]
    unfolding n ASSETS_DIR_eq by (auto split: if_splits)
  have f: "name \<in> {''screenshot-1.png'', ''screenshot-2.png'', ''screenshot-3.png'',
                     ''screenshot-4.png'', ''screenshot-5.png''}"
    if "nodes w' (SCREENSHOTS_DIR e @ [name]) \<noteq> nodes w (SCREENSHOTS_DIR e @ [name])" for name
    using that u [of "ROOT e @ [''store-assets'', ''screenshots'', name]" name]
    unfolding n SCREENSHOTS_DIR_eq by (auto split: if_splits)
  from a b c f show ?thesis by blast
qed

theorem main_outputs_exist_witness:
  "\<exists>w'. main linux_env empty_disk = Inr w' \<and>
     {name. nodes w' (ASSETS_DIR linux_env @ [name]) \<noteq> None}
       = {''icon16.png'', ''icon32.png'', ''icon48.png'', ''icon128.png''} \<and>
     {name. nodes w' (SCREENSHOTS_DIR linux_env @ [name]) \<noteq> None}
       = {''screenshot-1.png'', ''screenshot-2.png'', ''screenshot-3.png'',
          ''screenshot-4.png'', ''screenshot-5.png''}"
proof -
  from linux_run obtain w' where m: "main linux_env empty_disk = Inr w'"
    by blast
  have z: "nodes empty_disk q = None" for q
    by (simp add: empty_disk_def)
  from main_outputs_exist [OF m] have
    "{name. nodes w' (ASSETS_DIR linux_env @ [name]) \<noteq> None}
       = {''icon16.png'', ''icon32.png'', ''icon48.png'', ''icon128.png''}"
    "{name. nodes w' (SCREENSHOTS_DIR linux_env @ [name]) \<noteq> None}
       = {''screenshot-1.png'', ''screenshot-2.png'', ''screenshot-3.png'',
          ''screenshot-4.png'', ''screenshot-5.png''}"
    unfolding z by (blast, blast)
  with m show ?thesis by blast
qed

lemma stale_run: "\<exists>w'. main linux_env stale_disk = Inr w'"
proof (rule main_on_disk [OF permissive_linux_env])
  show "\<forall>q \<in> ancestors [] (ASSETS_DIR linux_env) \<union> ancestors [] (SCREENSHOTS_DIR linux_env).
          \<forall>img. nodes stale_disk q \<noteq> Some (File img)"
    by (simp add: ASSETS_DIR_eq SCREENSHOTS_DIR_eq linux_env_def stale_disk_def icons_disk_def)
  show "set (outputs linux_env) \<inter> dirs stale_disk = {}"
    by (simp add: outputs_def dirs_def linux_env_def stale_disk_def icons_disk_def)
qed

text \<open>
  C4 as stated fails on a disk whose icons directory already holds another file. On
  \<open>stale_disk\<close> the run returns (\<open>mkdir\<close> accepts the directory that exists, and
  nothing in the script removes a file), and the 64-pixel icon is still there: the icons
  directory then holds five files, not exactly the four.
\<close>

theorem icons_directory_counterexample:
  "\<exists>w'. main linux_env stale_disk = Inr w' \<and>
     nodes w' (ASSETS_DIR linux_env @ [''icon64.png''])
       = Some (File \<lparr>im_mode = ''RGBA'', im_width = 64, im_height = 64,
                      im_color = [19, 27, 38, 255], im_ops = []\<rparr>) \<and>
     {name. \<exists>img. nodes w' (ASSETS_DIR linux_env @ [name]) = Some (File img)}
       \<noteq> {''icon16.png'', ''icon32.png'', ''icon48.png'', ''icon128.png''}"
proof -
  from stale_run obtain w' where m: "main linux_env stale_disk = Inr w'"
    by blast
  have a: "ASSETS_DIR linux_env @ [''icon64.png'']
             = [''home'', ''dev'', ''myayai'', ''myayai-extension'', ''assets'', ''icons'',
                ''icon64.png'']"
    by (simp add: ASSETS_DIR_eq linux_env_def)
  have o: "ASSETS_DIR linux_env @ [''icon64.png''] \<notin> set (outputs linux_env)"
    unfolding a by (simp add: outputs_def linux_env_def)
  have d: "ASSETS_DIR linux_env @ [''icon64.png'']
             \<notin> ancestors [] (ASSETS_DIR linux_env) \<union> ancestors [] (SCREENSHOTS_DIR linux_env)"
    unfolding a by (simp add: ASSETS_DIR_eq SCREENSHOTS_DIR_eq linux_env_def)
  have "nodes w' (ASSETS_DIR linux_env @ [''icon64.png''])
          = nodes stale_disk (ASSETS_DIR linux_env @ [''icon64.png''])"
    by (rule main_keeps [OF m o d])
  then have f: "nodes w' (ASSETS_DIR linux_env @ [''icon64.png''])
       = Some (File \<lparr>im_mode = ''RGBA'', im_width = 64, im_height = 64,
                      im_color = [19, 27, 38, 255], im_ops = []\<rparr>)"
    unfolding a by (simp add: stale_disk_def)
  have ne: "{name. \<exists>img. nodes w' (ASSETS_DIR linux_env @ [name]) = Some (File img)}
       \<noteq> {''icon16.png'', ''icon32.png'', ''icon48.png'', ''icon128.png''}"
  proof (rule notI)
    assume eq: "{name. \<exists>img. nodes w' (ASSETS_DIR linux_env @ [name]) = Some (File img)}
       = {''icon16.png'', ''icon32.png'', ''icon48.png'', ''icon128.png''}"
    from f have "''icon64.png''
        \<in> {name. \<exists>img. nodes w' (ASSETS_DIR linux_env @ [name]) = Some (File img)}"
      by simp
    then have "''icon64.png'' \<in> {''icon16.png'', ''icon32.png'', ''icon48.png'', ''icon128.png''}"
      unfolding eq .
    then show False by simp
  qed
  show ?thesis
    by (rule exI [of _ w'], intro conjI) (rule m, rule f, rule ne)
qed


section \<open>Running the driver again\<close>





end
